theory Spec2Isabelle
  imports Main
begin

section \<open>Text, bytes and exceptions\<close>

text \<open>
  The script \<^verbatim>\<open>scripts/pig.py\<close> is read with the semantics of Python 3: a frame
  received from the socket is a \<^verbatim>\<open>bytes\<close> object, \<^verbatim>\<open>bytes.decode\<close> yields a
  \<^verbatim>\<open>str\<close>, and a \<^verbatim>\<open>str\<close> is a sequence of Unicode code points. Bytes are modelled by
  the 8-bit characters of HOL, text by lists of code points.
\<close>

type_synonym bytes = "char list"
type_synonym str = "nat list"

text \<open>A string literal of the source (all of them are ASCII) as a \<^verbatim>\<open>str\<close>.\<close>

definition lit :: "string \<Rightarrow> str" where
  "lit s = map of_char s"

text \<open>
  An exception is an instance of a class and has the text that \<^verbatim>\<open>str(err)\<close> returns.
  The classes are the ones the script names or that the operations it uses raise;
  \<open>OtherError\<close> stands for every class that is not a subclass of \<^verbatim>\<open>ValueError\<close>.
  In the highlighting library \<^verbatim>\<open>ClassNotFound\<close> is a subclass of \<^verbatim>\<open>ValueError\<close>, and so
  is the built-in \<^verbatim>\<open>UnicodeDecodeError\<close>.
\<close>

datatype exc_class =
    ClassNotFound
  | UnicodeDecodeError
  | ValueError
  | TypeError
  | UnboundLocalError
  | OtherError

datatype exn = Exn (exn_class: exc_class) (exn_msg: str)

fun issubclass :: "exc_class \<Rightarrow> exc_class \<Rightarrow> bool" where
  "issubclass ClassNotFound ValueError = True"
| "issubclass UnicodeDecodeError ValueError = True"
| "issubclass c d = (c = d)"

definition isinstance :: "exn \<Rightarrow> exc_class \<Rightarrow> bool" where
  "isinstance e c = issubclass (exn_class e) c"

text \<open>
  A call either returns a value, raises an exception, or never returns. A statement
  runs in the local variables of its function: it falls through with the variables
  updated, or raises in the variables as they are at that point, or never returns.
\<close>

datatype 'a call = Returns 'a | Raises exn | Hangs

datatype 's exec = Done 's | Raised exn 's | Stuck

definition seq :: "('s \<Rightarrow> 's exec) \<Rightarrow> ('s \<Rightarrow> 's exec) \<Rightarrow> 's \<Rightarrow> 's exec" where
  "seq p q st = (case p st of Done st' \<Rightarrow> q st' | Raised e st' \<Rightarrow> Raised e st' | Stuck \<Rightarrow> Stuck)"

text \<open>\<^verbatim>\<open>try: body except cls as err: handler\<close>\<close>

definition try_except ::
  "('s \<Rightarrow> 's exec) \<Rightarrow> exc_class \<Rightarrow> (exn \<Rightarrow> 's \<Rightarrow> 's exec) \<Rightarrow> 's \<Rightarrow> 's exec" where
  "try_except body cls handler st =
     (case body st of
        Done st' \<Rightarrow> Done st'
      | Raised e st' \<Rightarrow> if isinstance e cls then handler e st' else Raised e st'
      | Stuck \<Rightarrow> Stuck)"

text \<open>
  \<^verbatim>\<open>bytes.decode(encoding="UTF-8")\<close> with the default error handler \<^verbatim>\<open>strict\<close>: the
  well-formed sequences of one to four bytes give their code point; an overlong form, a
  surrogate, a value above U+10FFFF, a stray continuation byte and a truncated
  sequence raise \<^verbatim>\<open>UnicodeDecodeError\<close>.
\<close>

definition is_cont :: "nat \<Rightarrow> bool" where
  "is_cont b = (128 \<le> b \<and> b < 192)"

fun utf8 :: "nat list \<Rightarrow> str option" where
  "utf8 [] = Some []"
| "utf8 (b # bs) =
     (if b < 128 then map_option (Cons b) (utf8 bs)
      else if 194 \<le> b \<and> b < 224 then
        (case bs of
           b1 # r \<Rightarrow>
             if is_cont b1
             then map_option (Cons ((b - 192) * 64 + (b1 - 128))) (utf8 r)
             else None
         | _ \<Rightarrow> None)
      else if 224 \<le> b \<and> b < 240 then
        (case bs of
           b1 # b2 # r \<Rightarrow>
             if (if b = 224 then 160 else 128) \<le> b1 \<and> b1 < (if b = 237 then 160 else 192)
                \<and> is_cont b2
             then map_option (Cons ((b - 224) * 4096 + (b1 - 128) * 64 + (b2 - 128))) (utf8 r)
             else None
         | _ \<Rightarrow> None)
      else if 240 \<le> b \<and> b < 245 then
        (case bs of
           b1 # b2 # b3 # r \<Rightarrow>
             if (if b = 240 then 144 else 128) \<le> b1 \<and> b1 < (if b = 244 then 144 else 192)
                \<and> is_cont b2 \<and> is_cont b3
             then map_option
                    (Cons ((b - 240) * 262144 + (b1 - 128) * 4096 + (b2 - 128) * 64 + (b3 - 128)))
                    (utf8 r)
             else None
         | _ \<Rightarrow> None)
      else None)"

text \<open>
  The text of an exception that leaves the worker is never read by the script; the
  model gives it a fixed description.
\<close>

definition decode :: "bytes \<Rightarrow> str call" where
  "decode bs =
     (case utf8 (map of_char bs) of
        Some s \<Rightarrow> Returns s
      | None \<Rightarrow> Raises (Exn UnicodeDecodeError (lit ''utf-8 codec cannot decode the bytes'')))"

section \<open>Regular expressions of the grammar tables\<close>

text \<open>
  The custom grammars are tables of regular expressions, interpreted by the
  \<^verbatim>\<open>RegexLexer\<close> base class with the flag \<^verbatim>\<open>re.MULTILINE\<close>. The constructors below
  are the regular-expression syntax that the table of \<^verbatim>\<open>TOMLLexer\<close> uses.
\<close>

datatype citem = Ch char | Range char char

datatype regex =
    Eps
  | Lit char
  | Dot
  | Esc_s
  | Esc_d
  | Set "citem list"
  | NSet "citem list"
  | Eol
  | Seq regex regex
  | Alt regex regex
  | Star regex
  | LazyStar regex

definition Opt :: "regex \<Rightarrow> regex" where
  "Opt r = Alt r Eps"

definition Plus :: "regex \<Rightarrow> regex" where
  "Plus r = Seq r (Star r)"

definition Cat :: "regex list \<Rightarrow> regex" where
  "Cat rs = foldr Seq rs Eps"

definition Lits :: "string \<Rightarrow> regex" where
  "Lits s = Cat (map Lit s)"

fun Rep :: "nat \<Rightarrow> regex \<Rightarrow> regex" where
  "Rep 0 r = Eps"
| "Rep (Suc n) r = Seq r (Rep n r)"

text \<open>
  Character classes on code points. \<^verbatim>\<open>\s\<close> in a \<^verbatim>\<open>str\<close> pattern is the Unicode white
  space of \<^verbatim>\<open>str.isspace\<close>. \<^verbatim>\<open>\d\<close> is the Unicode category Nd: the ASCII digits, and
  beyond ASCII whatever the Unicode database of the interpreter lists, which is the
  parameter \<open>nd\<close>.
\<close>

definition is_space :: "nat \<Rightarrow> bool" where
  "is_space c = ((9 \<le> c \<and> c \<le> 13) \<or> (28 \<le> c \<and> c \<le> 32) \<or> c = 133 \<or> c = 160 \<or> c = 5760
      \<or> (8192 \<le> c \<and> c \<le> 8202) \<or> c = 8232 \<or> c = 8233 \<or> c = 8239 \<or> c = 8287 \<or> c = 12288)"

definition is_digit :: "(nat \<Rightarrow> bool) \<Rightarrow> nat \<Rightarrow> bool" where
  "is_digit nd c = (if c < 128 then 48 \<le> c \<and> c \<le> 57 else nd c)"

fun in_item :: "nat \<Rightarrow> citem \<Rightarrow> bool" where
  "in_item c (Ch a) = (c = of_char a)"
| "in_item c (Range a b) = (of_char a \<le> c \<and> c \<le> of_char b)"

text \<open>
  \<open>ends nd r s\<close> lists, in the order in which a backtracking matcher tries them, the
  rests of \<open>s\<close> that remain after a match of \<open>r\<close> at the start of \<open>s\<close>; the head of
  the list is the match that \<^verbatim>\<open>re.match\<close> reports. \<open>Eol\<close> is \<^verbatim>\<open>$\<close> under
  \<^verbatim>\<open>re.MULTILINE\<close>: the end of the text or the position before a line feed. An
  iteration of a star that consumes nothing is not repeated.
\<close>

function ends :: "(nat \<Rightarrow> bool) \<Rightarrow> regex \<Rightarrow> str \<Rightarrow> str list" where
  "ends nd Eps s = [s]"
| "ends nd (Lit a) s = (case s of [] \<Rightarrow> [] | c # s' \<Rightarrow> if c = of_char a then [s'] else [])"
| "ends nd Dot s = (case s of [] \<Rightarrow> [] | c # s' \<Rightarrow> if c = 10 then [] else [s'])"
| "ends nd Esc_s s = (case s of [] \<Rightarrow> [] | c # s' \<Rightarrow> if is_space c then [s'] else [])"
| "ends nd Esc_d s = (case s of [] \<Rightarrow> [] | c # s' \<Rightarrow> if is_digit nd c then [s'] else [])"
| "ends nd (Set cs) s = (case s of [] \<Rightarrow> [] | c # s' \<Rightarrow> if list_ex (in_item c) cs then [s'] else [])"
| "ends nd (NSet cs) s = (case s of [] \<Rightarrow> [] | c # s' \<Rightarrow> if list_ex (in_item c) cs then [] else [s'])"
| "ends nd Eol s = (case s of [] \<Rightarrow> [s] | c # s' \<Rightarrow> if c = 10 then [s] else [])"
| "ends nd (Seq a b) s = concat (map (ends nd b) (ends nd a s))"
| "ends nd (Alt a b) s = ends nd a s @ ends nd b s"
| "ends nd (Star a) s =
     concat (map (ends nd (Star a)) (filter (\<lambda>s'. length s' < length s) (ends nd a s))) @ [s]"
| "ends nd (LazyStar a) s =
     s # concat (map (ends nd (LazyStar a)) (filter (\<lambda>s'. length s' < length s) (ends nd a s)))"
  by pat_completeness auto
termination
  by (relation "inv_image (less_than <*lex*> less_than) (\<lambda>(nd, r, s). (size r, length s))") auto

text \<open>
  A pattern is consuming when, by its form, each of its matches takes at least one
  character. This is not in the source; it serves to show below that a table of such
  patterns never leaves the lexer where it is.
\<close>

fun consuming :: "regex \<Rightarrow> bool" where
  "consuming (Seq a b) = (consuming a \<or> consuming b)"
| "consuming (Alt a b) = (consuming a \<and> consuming b)"
| "consuming Eps = False"
| "consuming Eol = False"
| "consuming (Star a) = False"
| "consuming (LazyStar a) = False"
| "consuming r = True"

section \<open>The TOML grammar\<close>

text \<open>
  A token type of the highlighting library is a path of names below the root
  \<^verbatim>\<open>Token\<close>; \<^verbatim>\<open>String\<close> and \<^verbatim>\<open>Number\<close> are its aliases for
  \<^verbatim>\<open>Token.Literal.String\<close> and \<^verbatim>\<open>Token.Literal.Number\<close>.
\<close>

type_synonym token = "string list"

definition Token_Text :: token where
  "Token_Text = [''Text'']"

definition Token_Error :: token where
  "Token_Error = [''Error'']"

definition Token_Comment_Single :: token where
  "Token_Comment_Single = [''Comment'', ''Single'']"

definition Token_String :: token where
  "Token_String = [''Literal'', ''String'']"

definition Token_Keyword_Constant :: token where
  "Token_Keyword_Constant = [''Keyword'', ''Constant'']"

definition Token_Name :: token where
  "Token_Name = [''Name'']"

definition Token_Number_Integer :: token where
  "Token_Number_Integer = [''Literal'', ''Number'', ''Integer'']"

definition Token_Number_Float :: token where
  "Token_Number_Float = [''Literal'', ''Number'', ''Float'']"

definition Token_Punctuation :: token where
  "Token_Punctuation = [''Punctuation'']"

definition Token_Operator :: token where
  "Token_Operator = [''Operator'']"

text \<open>
  The table \<^verbatim>\<open>TOMLLexer.tokens\<close>. It has the single state \<^verbatim>\<open>'root'\<close> and no rule
  changes the state, so a table is a list of pairs of a pattern and a token type, in
  the order of the source.
\<close>

definition dquote :: char where
  "dquote = CHR 0x22"

definition backslash :: char where
  "backslash = CHR 0x5C"

definition TOMLLexer_tokens :: "(regex \<times> token) list" where
  "TOMLLexer_tokens =
   [ (Plus Esc_s, Token_Text),
     (Cat [Lit CHR ''#'', LazyStar Dot, Eol], Token_Comment_Single),
     (Cat [Lit dquote,
           Star (Alt (Cat [Lit backslash, Lit backslash])
                (Alt (Cat [Lit backslash, Lit dquote])
                     (NSet [Ch dquote]))),
           Lit dquote], Token_String),
     (Cat [Alt (Lits ''true'') (Lits ''false''), Eol], Token_Keyword_Constant),
     (Cat [Set [Range CHR ''a'' CHR ''z'', Range CHR ''A'' CHR ''Z'', Ch CHR ''_''],
           Star (Set [Range CHR ''a'' CHR ''z'', Range CHR ''A'' CHR ''Z'',
                      Range CHR ''0'' CHR ''9'', Ch CHR ''_'', Ch CHR ''-''])], Token_Name),
     (Cat [Rep 4 Esc_d, Lit CHR ''-'', Rep 2 Esc_d, Lit CHR ''-'', Rep 2 Esc_d, Lit CHR ''T'',
           Rep 2 Esc_d, Lit CHR '':'', Rep 2 Esc_d, Lit CHR '':'', Rep 2 Esc_d, Lit CHR ''Z''],
      Token_Number_Integer),
     (Cat [Alt (Cat [Plus Esc_d, Lit CHR ''.'', Star Esc_d])
               (Cat [Star Esc_d, Lit CHR ''.'', Plus Esc_d]),
           Opt (Cat [Set [Ch CHR ''e'', Ch CHR ''E''], Opt (Set [Ch CHR ''+'', Ch CHR ''-'']),
                     Plus (Set [Range CHR ''0'' CHR ''9''])]),
           Opt (Lit CHR ''j'')], Token_Number_Float),
     (Cat [Plus Esc_d, Set [Ch CHR ''e'', Ch CHR ''E''], Opt (Set [Ch CHR ''+'', Ch CHR ''-'']),
           Plus (Set [Range CHR ''0'' CHR ''9'']), Opt (Lit CHR ''j'')], Token_Number_Float),
     (Cat [Opt (Lit CHR ''-''), Plus Esc_d], Token_Number_Integer),
     (Set [Ch CHR '']'', Ch CHR ''{'', Ch CHR ''}'', Ch CHR '':'', Ch CHR ''('', Ch CHR '')'',
           Ch CHR '','', Ch CHR '';'', Ch CHR ''[''], Token_Punctuation),
     (Lit CHR ''.'', Token_Punctuation),
     (Lit CHR ''='', Token_Operator) ]"

section \<open>The lexer base classes\<close>

text \<open>
  \<^verbatim>\<open>RegexLexer.get_tokens_unprocessed\<close>: at each position the rules of the state are
  tried in order and the first one whose pattern matches yields its token and moves
  the position to the end of the match. Where no rule matches, a line feed is passed
  on as text and any other character as an error token. A rule that matches the empty
  text leaves the position where it is and is tried again for ever: that run has no
  result, which is \<open>None\<close>.
\<close>

fun first_match :: "(nat \<Rightarrow> bool) \<Rightarrow> (regex \<times> token) list \<Rightarrow> str \<Rightarrow> (token \<times> str) option" where
  "first_match nd [] s = None"
| "first_match nd ((r, t) # rules) s =
     (case ends nd r s of [] \<Rightarrow> first_match nd rules s | s' # _ \<Rightarrow> Some (t, s'))"

function get_tokens_unprocessed ::
  "(nat \<Rightarrow> bool) \<Rightarrow> (regex \<times> token) list \<Rightarrow> str \<Rightarrow> (token \<times> str) list option" where
  "get_tokens_unprocessed nd rules [] =
     (case first_match nd rules [] of None \<Rightarrow> Some [] | Some m \<Rightarrow> None)"
| "get_tokens_unprocessed nd rules (c # s) =
     (case first_match nd rules (c # s) of
        Some (t, s') \<Rightarrow>
          if length s' < length (c # s)
          then map_option (Cons (t, take (length (c # s) - length s') (c # s)))
                 (get_tokens_unprocessed nd rules s')
          else None
      | None \<Rightarrow>
          map_option (Cons (if c = 10 then Token_Text else Token_Error, [c]))
            (get_tokens_unprocessed nd rules s))"
  by pat_completeness auto
termination
  by (relation "measure (\<lambda>(nd, rules, s). length s)") auto

text \<open>
  \<^verbatim>\<open>Lexer.get_tokens\<close> on a \<^verbatim>\<open>str\<close>, with the default options \<^verbatim>\<open>stripnl=True\<close>,
  \<^verbatim>\<open>stripall=False\<close>, \<^verbatim>\<open>ensurenl=True\<close>, \<^verbatim>\<open>tabsize=0\<close> and no filters: a leading
  byte-order mark is dropped, line ends become line feeds, line feeds at both ends are
  stripped and one line feed is appended.
\<close>

fun replace_crlf :: "str \<Rightarrow> str" where
  "replace_crlf (a # b # s) = (if a = 13 \<and> b = 10 then 10 # replace_crlf s else a # replace_crlf (b # s))"
| "replace_crlf s = s"

definition replace_cr :: "str \<Rightarrow> str" where
  "replace_cr s = map (\<lambda>c. if c = 13 then 10 else c) s"

definition strip_nl :: "str \<Rightarrow> str" where
  "strip_nl s = rev (dropWhile (\<lambda>c. c = 10) (rev (dropWhile (\<lambda>c. c = 10) s)))"

definition ensure_nl :: "str \<Rightarrow> str" where
  "ensure_nl s = (if s \<noteq> [] \<and> last s = 10 then s else s @ [10])"

definition preprocess :: "str \<Rightarrow> str" where
  "preprocess text =
     ensure_nl (strip_nl (replace_cr (replace_crlf
       (case text of [] \<Rightarrow> [] | c # s \<Rightarrow> if c = 65279 then s else c # s))))"

definition TOMLLexer_get_tokens :: "(nat \<Rightarrow> bool) \<Rightarrow> str \<Rightarrow> (token \<times> str) list option" where
  "TOMLLexer_get_tokens nd text = get_tokens_unprocessed nd TOMLLexer_tokens (preprocess text)"

section \<open>The highlighting library as the script uses it\<close>

text \<open>
  A lexer object is an instance of one of the two classes that the script defines, or
  one that the registry of the library returns. The library is a parameter of the
  model:
  \<^item> \<open>registry\<close> is the table of \<^verbatim>\<open>get_lexer_by_name\<close>, from an alias to the lexer
    registered for it;
  \<^item> \<open>repr\<close> is \<^verbatim>\<open>repr\<close> on a \<^verbatim>\<open>str\<close>, which the text of \<^verbatim>\<open>ClassNotFound\<close> quotes
    the alias with;
  \<^item> \<open>library_get_tokens\<close> is the token stream of a registered lexer;
  \<^item> \<open>GDBLexer_get_tokens\<close> is the token stream of \<^verbatim>\<open>GDBLexer\<close>, whose table the same
    base class interprets: nothing below depends on its rules, so it is taken as given;
  \<^item> \<open>format\<close> is \<^verbatim>\<open>HtmlFormatter(encoding='utf-8', nowrap=True)\<close>, the formatter that
    each worker builds once: since it has an encoding, what it writes is \<^verbatim>\<open>bytes\<close>;
  \<^item> \<open>decimal\<close> is the Unicode category Nd beyond ASCII.
\<close>

datatype 'l lexer = GDBLexer | TOMLLexer | Library 'l

record 'l pygments =
  registry :: "str \<Rightarrow> 'l option"
  repr :: "str \<Rightarrow> str"
  library_get_tokens :: "'l \<Rightarrow> str \<Rightarrow> (token \<times> str) list call"
  GDBLexer_get_tokens :: "str \<Rightarrow> (token \<times> str) list call"
  format :: "(token \<times> str) list \<Rightarrow> bytes call"
  decimal :: "nat \<Rightarrow> bool"

text \<open>
  \<^verbatim>\<open>get_lexer_by_name\<close> returns the lexer registered for the alias and raises
  \<^verbatim>\<open>ClassNotFound\<close> when there is none. The option \<^verbatim>\<open>encoding="utf-8"\<close> that the script
  gives to every lexer tells it how to decode input that is \<^verbatim>\<open>bytes\<close>; the worker
  passes a \<^verbatim>\<open>str\<close>, so the option has no effect here.
\<close>

definition get_lexer_by_name :: "'l pygments \<Rightarrow> str \<Rightarrow> 'l lexer call" where
  "get_lexer_by_name env alias =
     (case registry env alias of
        Some l \<Rightarrow> Returns (Library l)
      | None \<Rightarrow>
          Raises (Exn ClassNotFound (lit ''no lexer for alias '' @ repr env alias @ lit '' found'')))"

definition get_tokens :: "'l pygments \<Rightarrow> 'l lexer \<Rightarrow> str \<Rightarrow> (token \<times> str) list call" where
  "get_tokens env lexer code =
     (case lexer of
        GDBLexer \<Rightarrow> GDBLexer_get_tokens env code
      | TOMLLexer \<Rightarrow>
          (case TOMLLexer_get_tokens (decimal env) code of
             Some ts \<Rightarrow> Returns ts
           | None \<Rightarrow> Hangs)
      | Library l \<Rightarrow> library_get_tokens env l code)"

text \<open>\<^verbatim>\<open>highlight(code, lexer, formatter)\<close> is \<^verbatim>\<open>format(lex(code, lexer), formatter)\<close>.\<close>

definition highlight :: "'l pygments \<Rightarrow> str \<Rightarrow> 'l lexer \<Rightarrow> bytes call" where
  "highlight env code lexer =
     (case get_tokens env lexer code of
        Returns ts \<Rightarrow> format env ts
      | Raises e \<Rightarrow> Raises e
      | Hangs \<Rightarrow> Hangs)"

section \<open>The worker\<close>

text \<open>
  A Python value that the worker sends or assigns to \<^verbatim>\<open>rv\<close> is a \<^verbatim>\<open>bytes\<close> or a
  \<^verbatim>\<open>str\<close>. The local variables of \<^verbatim>\<open>ServerWorker.run\<close> live on from one turn of its
  loop to the next; a variable that has not been assigned is \<open>None\<close>. The variable \<^verbatim>\<open>lex\<close> is the
  field \<open>lex_local\<close>.
\<close>

datatype pyval = Bytes bytes | Str str

record 'l locals =
  lang :: "str option"
  code :: "str option"
  rv :: "pyval option"
  lex_local :: "'l lexer option"

definition unbound :: "'l locals" where
  "unbound = \<lparr>lang = None, code = None, rv = None, lex_local = None\<rparr>"

definition unbound_local :: "string \<Rightarrow> exn" where
  "unbound_local name = Exn UnboundLocalError (lit (''local variable referenced before assignment: '' @ name))"

text \<open>
  Lines 132 to 135: the message is unpacked into exactly two frames, which raises
  \<^verbatim>\<open>ValueError\<close> for any other number of frames, and both are decoded. These lines
  are outside every \<^verbatim>\<open>try\<close> statement, so an exception raised here leaves the
  function and its variables are not read again: the model keeps them as they were,
  and records the two variables only once both hold their decoded text.
\<close>

definition receive :: "bytes list \<Rightarrow> 'l locals \<Rightarrow> 'l locals exec" where
  "receive frames st =
     (case frames of
        [l, c] \<Rightarrow>
          (case decode l of
             Returns l' \<Rightarrow>
               (case decode c of
                  Returns c' \<Rightarrow> Done (st\<lparr>lang := Some l', code := Some c'\<rparr>)
                | Raises e \<Rightarrow> Raised e st
                | Hangs \<Rightarrow> Stuck)
           | Raises e \<Rightarrow> Raised e st
           | Hangs \<Rightarrow> Stuck)
      | _ \<Rightarrow> Raised (Exn ValueError (lit ''wrong number of values to unpack (expected 2)'')) st)"

text \<open>Lines 140 to 145: the \<^verbatim>\<open>if\<close> chain in the inner \<^verbatim>\<open>try\<close>.\<close>

definition select_lexer :: "'l pygments \<Rightarrow> 'l locals \<Rightarrow> 'l locals exec" where
  "select_lexer env st =
     (case lang st of
        None \<Rightarrow> Raised (unbound_local ''lang'') st
      | Some name \<Rightarrow>
          if name = lit ''gdb'' then Done (st\<lparr>lex_local := Some GDBLexer\<rparr>)
          else if name = lit ''toml'' then Done (st\<lparr>lex_local := Some TOMLLexer\<rparr>)
          else
            (case get_lexer_by_name env name of
               Returns x \<Rightarrow> Done (st\<lparr>lex_local := Some x\<rparr>)
             | Raises e \<Rightarrow> Raised e st
             | Hangs \<Rightarrow> Stuck))"

text \<open>Line 147: the handler of \<^verbatim>\<open>ClassNotFound\<close>.\<close>

definition text_lexer :: "'l pygments \<Rightarrow> 'l locals \<Rightarrow> 'l locals exec" where
  "text_lexer env st =
     (case get_lexer_by_name env (lit ''text'') of
        Returns x \<Rightarrow> Done (st\<lparr>lex_local := Some x\<rparr>)
      | Raises e \<Rightarrow> Raised e st
      | Hangs \<Rightarrow> Stuck)"

text \<open>Lines 139 to 147: the inner \<^verbatim>\<open>try\<close> statement, which resolves the grammar.\<close>

definition resolve :: "'l pygments \<Rightarrow> 'l locals \<Rightarrow> 'l locals exec" where
  "resolve env = try_except (select_lexer env) ClassNotFound (\<lambda>err. text_lexer env)"

text \<open>Line 149.\<close>

definition render :: "'l pygments \<Rightarrow> 'l locals \<Rightarrow> 'l locals exec" where
  "render env st =
     (case code st of
        None \<Rightarrow> Raised (unbound_local ''code'') st
      | Some c \<Rightarrow>
          (case lex_local st of
             None \<Rightarrow> Raised (unbound_local ''lex'') st
           | Some x \<Rightarrow>
               (case highlight env c x of
                  Returns b \<Rightarrow> Done (st\<lparr>rv := Some (Bytes b)\<rparr>)
                | Raises e \<Rightarrow> Raised e st
                | Hangs \<Rightarrow> Stuck)))"

text \<open>Line 151: the handler of \<^verbatim>\<open>ValueError\<close>.\<close>

definition error_reply :: "exn \<Rightarrow> 'l locals \<Rightarrow> 'l locals exec" where
  "error_reply err st = Done (st\<lparr>rv := Some (Str (lit ''Pygments Error: '' @ exn_msg err))\<rparr>)"

text \<open>Lines 137 to 151: \<^verbatim>\<open>rv = ""\<close> and the outer \<^verbatim>\<open>try\<close> statement.\<close>

definition make_reply :: "'l pygments \<Rightarrow> 'l locals \<Rightarrow> 'l locals exec" where
  "make_reply env =
     seq (\<lambda>st. Done (st\<lparr>rv := Some (Str [])\<rparr>))
         (try_except (seq (resolve env) (render env)) ValueError error_reply)"

text \<open>
  \<^verbatim>\<open>socket.send\<close> of the messaging library takes \<^verbatim>\<open>bytes\<close>; given a \<^verbatim>\<open>str\<close> it raises
  \<^verbatim>\<open>TypeError\<close> and sends nothing.
\<close>

definition socket_send :: "pyval \<Rightarrow> unit call" where
  "socket_send v =
     (case v of
        Bytes b \<Rightarrow> Returns ()
      | Str s \<Rightarrow> Raises (Exn TypeError (lit ''unicode not allowed, use send_string'')))"

text \<open>
  Lines 132 to 153, one turn of the loop on the message that \<^verbatim>\<open>recv_multipart\<close>
  returned: the reply that was sent and the local variables after it, or the exception
  that leaves the loop.
\<close>

definition loop_body :: "'l pygments \<Rightarrow> bytes list \<Rightarrow> 'l locals \<Rightarrow> (pyval \<times> 'l locals) call" where
  "loop_body env frames st =
     (case seq (receive frames) (make_reply env) st of
        Done st' \<Rightarrow>
          (case rv st' of
             None \<Rightarrow> Raises (unbound_local ''rv'')
           | Some v \<Rightarrow>
               (case socket_send v of
                  Returns u \<Rightarrow> Returns (v, st')
                | Raises e \<Rightarrow> Raises e
                | Hangs \<Rightarrow> Hangs))
      | Raised e st' \<Rightarrow> Raises e
      | Stuck \<Rightarrow> Hangs)"

text \<open>
  \<^verbatim>\<open>ServerWorker.run\<close> on the messages that arrive at its socket, in their order: the
  replies it sends, and how the thread stands after the last of them. The loop has no
  exit: when the messages are used up the thread waits in \<^verbatim>\<open>recv_multipart\<close>; an
  exception that leaves the loop body ends the thread; a call that never returns keeps
  it for ever.
\<close>

datatype thread = Waiting | Died exn | Stalled

fun worker_loop :: "'l pygments \<Rightarrow> 'l locals \<Rightarrow> bytes list list \<Rightarrow> pyval list \<times> thread" where
  "worker_loop env st [] = ([], Waiting)"
| "worker_loop env st (m # ms) =
     (case loop_body env m st of
        Returns (v, st') \<Rightarrow> (case worker_loop env st' ms of (vs, t) \<Rightarrow> (v # vs, t))
      | Raises e \<Rightarrow> ([], Died e)
      | Hangs \<Rightarrow> ([], Stalled))"

definition ServerWorker_run :: "'l pygments \<Rightarrow> bytes list list \<Rightarrow> pyval list \<times> thread" where
  "ServerWorker_run env ms = worker_loop env unbound ms"

section \<open>The server task\<close>

text \<open>
  \<^verbatim>\<open>ServerTask.run\<close> as the sequence of the operations it performs on the messaging
  library and on its worker threads. \<^verbatim>\<open>zmq.proxy\<close> is the relay; the statements after
  it run only if it returns. The argument \<open>sz\<close> is the field \<^verbatim>\<open>self.size\<close>.
\<close>

datatype endpoint = Frontend | Backend

datatype action =
    Context_new
  | Socket_new endpoint
  | Bind endpoint string
  | Worker_new int
  | Worker_daemon int
  | Worker_start int
  | Proxy
  | Close endpoint
  | Context_term

text \<open>\<^verbatim>\<open>range(n)\<close>\<close>

definition py_range :: "int \<Rightarrow> int list" where
  "py_range n = map int [0 ..< nat n]"

definition spawn_workers :: "int \<Rightarrow> action list" where
  "spawn_workers sz =
     concat (map (\<lambda>i. [Worker_new i, Worker_daemon i, Worker_start i]) (py_range (sz + 1)))"

definition ServerTask_run :: "int \<Rightarrow> action list" where
  "ServerTask_run sz =
     [Context_new,
      Socket_new Frontend, Bind Frontend ''tcp://127.0.0.1:5555'',
      Socket_new Backend, Bind Backend ''inproc://backend'']
     @ spawn_workers sz
     @ [Proxy, Close Frontend, Close Backend, Context_term]"

definition main :: "action list" where
  "main = ServerTask_run 4"

section \<open>Summaries of the worker's statements\<close>

text \<open>
  The functions of this section are not in the source: they say in closed form what
  the statements above compute, and the lemmas below prove that they do.
  \<open>lexer_for\<close> is the lexer that lines 139 to 147 assign for a language name,
  \<open>payload_for\<close> the value that \<^verbatim>\<open>rv\<close> holds at line 153, \<open>sent\<close> the effect of
  \<^verbatim>\<open>socket.send\<close> on it, and \<open>outcome\<close> the reply to a message or the way the turn of
  the loop fails. \<open>reply\<close> forgets the local variables of a result of \<open>loop_body\<close>.
\<close>

definition reply :: "(pyval \<times> 's) call \<Rightarrow> pyval call" where
  "reply r = (case r of Returns (v, st) \<Rightarrow> Returns v | Raises e \<Rightarrow> Raises e | Hangs \<Rightarrow> Hangs)"

definition lexer_for :: "'l pygments \<Rightarrow> str \<Rightarrow> 'l lexer call" where
  "lexer_for env name =
     (if name = lit ''gdb'' then Returns GDBLexer
      else if name = lit ''toml'' then Returns TOMLLexer
      else case registry env name of
             Some l \<Rightarrow> Returns (Library l)
           | None \<Rightarrow> get_lexer_by_name env (lit ''text''))"

definition payload_for :: "'l pygments \<Rightarrow> str \<Rightarrow> str \<Rightarrow> pyval call" where
  "payload_for env name src =
     (case lexer_for env name of
        Returns x \<Rightarrow>
          (case highlight env src x of
             Returns b \<Rightarrow> Returns (Bytes b)
           | Raises e \<Rightarrow>
               if isinstance e ValueError
               then Returns (Str (lit ''Pygments Error: '' @ exn_msg e))
               else Raises e
           | Hangs \<Rightarrow> Hangs)
      | Raises e \<Rightarrow>
          if isinstance e ValueError
          then Returns (Str (lit ''Pygments Error: '' @ exn_msg e))
          else Raises e
      | Hangs \<Rightarrow> Hangs)"

definition sent :: "pyval call \<Rightarrow> pyval call" where
  "sent p =
     (case p of
        Returns v \<Rightarrow>
          (case socket_send v of Returns u \<Rightarrow> Returns v | Raises e \<Rightarrow> Raises e | Hangs \<Rightarrow> Hangs)
      | Raises e \<Rightarrow> Raises e
      | Hangs \<Rightarrow> Hangs)"

definition outcome :: "'l pygments \<Rightarrow> bytes list \<Rightarrow> pyval call" where
  "outcome env frames =
     (case frames of
        [l, c] \<Rightarrow>
          (case decode l of
             Returns name \<Rightarrow>
               (case decode c of
                  Returns src \<Rightarrow> sent (payload_for env name src)
                | Raises e \<Rightarrow> Raises e
                | Hangs \<Rightarrow> Hangs)
           | Raises e \<Rightarrow> Raises e
           | Hangs \<Rightarrow> Hangs)
      | _ \<Rightarrow> Raises (Exn ValueError (lit ''wrong number of values to unpack (expected 2)'')))"

text \<open>The workers that a sequence of operations constructs, and the ones it starts.\<close>

fun created :: "action list \<Rightarrow> int list" where
  "created [] = []"
| "created (Worker_new i # acts) = i # created acts"
| "created (a # acts) = created acts"

fun started :: "action list \<Rightarrow> int list" where
  "started [] = []"
| "started (Worker_start i # acts) = i # started acts"
| "started (a # acts) = started acts"

text \<open>
  A code point of a well-formed text is a Unicode scalar value: below U+110000 and
  not a surrogate. The error marker is the text that line 151 puts in front of the
  details of a failure; a client tells an error reply from markup by the payload
  beginning with it.
\<close>

definition valid_point :: "nat \<Rightarrow> bool" where
  "valid_point c = (c < 55296 \<or> (57344 \<le> c \<and> c < 1114112))"

definition well_formed :: "str \<Rightarrow> bool" where
  "well_formed s = list_all valid_point s"

definition has_error_marker :: "pyval \<Rightarrow> bool" where
  "has_error_marker v =
     (case v of
        Bytes b \<Rightarrow> take 16 b = ''Pygments Error: ''
      | Str s \<Rightarrow> take 16 s = lit ''Pygments Error: '')"

section \<open>An instance of the library\<close>

text \<open>
  A small library on which the model runs on concrete messages. Its registry knows the
  plain-text lexer under \<^verbatim>\<open>text\<close>, a lexer of its own under \<^verbatim>\<open>toml\<close>, and under
  \<^verbatim>\<open>broken\<close> a lexer that rejects every input with a \<^verbatim>\<open>ValueError\<close>. The plain-text
  lexer yields its whole input as one text token. The formatter escapes the text of each
  token, puts it in a \<^verbatim>\<open>span\<close> of the short name of its type when it has one, in the
  manner of the HTML formatter without its wrapper, and encodes the result as UTF-8.
\<close>

datatype sample_lexer = PlainText | OtherToml | Broken

definition sample_registry :: "str \<Rightarrow> sample_lexer option" where
  "sample_registry alias =
     (if alias = lit ''text'' then Some PlainText
      else if alias = lit ''toml'' then Some OtherToml
      else if alias = lit ''broken'' then Some Broken
      else None)"

definition sample_get_tokens :: "sample_lexer \<Rightarrow> str \<Rightarrow> (token \<times> str) list call" where
  "sample_get_tokens l src =
     (case l of
        PlainText \<Rightarrow> Returns [(Token_Text, preprocess src)]
      | OtherToml \<Rightarrow> Returns [(Token_Text, preprocess src)]
      | Broken \<Rightarrow> Raises (Exn ValueError (lit ''unsupported input'')))"

definition escape_html :: "str \<Rightarrow> str" where
  "escape_html s =
     concat (map (\<lambda>c. if c = 38 then lit ''&amp;''
                       else if c = 60 then lit ''&lt;''
                       else if c = 62 then lit ''&gt;''
                       else if c = 34 then lit ''&quot;''
                       else if c = 39 then lit ''&#39;''
                       else [c]) s)"

definition short_name :: "token \<Rightarrow> string" where
  "short_name t =
     (if t = Token_Name then ''n''
      else if t = Token_Operator then ''o''
      else if t = Token_String then ''s''
      else if t = Token_Punctuation then ''p''
      else if t = Token_Error then ''err''
      else [])"

definition span :: "token \<Rightarrow> str \<Rightarrow> str" where
  "span t v =
     (if short_name t = [] then v
      else lit (''<span class='' @ [dquote] @ short_name t @ [dquote] @ ''>'') @ v @ lit ''</span>'')"

fun encode_point :: "nat \<Rightarrow> nat list" where
  "encode_point c =
     (if c < 128 then [c]
      else if c < 2048 then [192 + c div 64, 128 + c mod 64]
      else if c < 65536 then [224 + c div 4096, 128 + c div 64 mod 64, 128 + c mod 64]
      else [240 + c div 262144, 128 + c div 4096 mod 64, 128 + c div 64 mod 64, 128 + c mod 64])"

definition encode :: "str \<Rightarrow> bytes" where
  "encode s = map char_of (concat (map encode_point s))"

definition sample_format :: "(token \<times> str) list \<Rightarrow> bytes call" where
  "sample_format ts = Returns (encode (concat (map (\<lambda>(t, v). span t (escape_html v)) ts)))"

definition sample :: "sample_lexer pygments" where
  "sample =
     \<lparr>registry = sample_registry,
      repr = (\<lambda>s. [39] @ s @ [39]),
      library_get_tokens = sample_get_tokens,
      GDBLexer_get_tokens = (\<lambda>src. Returns [(Token_Text, preprocess src)]),
      format = sample_format,
      decimal = (\<lambda>c. False)\<rparr>"

section \<open>The statements of the worker in closed form\<close>

lemma lit_distinct [simp]:
  "lit ''toml'' \<noteq> lit ''gdb''" "lit ''text'' \<noteq> lit ''gdb''" "lit ''text'' \<noteq> lit ''toml''"
  by (simp_all add: lit_def)

lemma decode_text [simp]: "decode ''text'' = Returns (lit ''text'')"
  by (simp add: decode_def lit_def)

lemma decode_toml [simp]: "decode ''toml'' = Returns (lit ''toml'')"
  by (simp add: decode_def lit_def)

lemma get_lexer_by_name_returns:
  "registry env alias = Some l \<Longrightarrow> get_lexer_by_name env alias = Returns (Library l)"
  by (simp add: get_lexer_by_name_def)

lemma lexer_for_not_Hangs: "lexer_for env name \<noteq> Hangs"
  by (simp add: lexer_for_def get_lexer_by_name_def split: option.split)

lemma resolve_lexer_for:
  "lang st = Some name \<Longrightarrow>
   resolve env st =
     (case lexer_for env name of
        Returns x \<Rightarrow> Done (st\<lparr>lex_local := Some x\<rparr>)
      | Raises e \<Rightarrow> Raised e st
      | Hangs \<Rightarrow> Stuck)"
  by (simp add: resolve_def try_except_def select_lexer_def text_lexer_def lexer_for_def
      get_lexer_by_name_def isinstance_def split: option.split)

lemma render_highlight:
  "code st = Some src \<Longrightarrow> lex_local st = Some x \<Longrightarrow>
   render env st =
     (case highlight env src x of
        Returns b \<Rightarrow> Done (st\<lparr>rv := Some (Bytes b)\<rparr>)
      | Raises e \<Rightarrow> Raised e st
      | Hangs \<Rightarrow> Stuck)"
  by (simp add: render_def)

text \<open>
  The body of the outer \<^verbatim>\<open>try\<close> statement, lines 139 to 149, when the two variables
  it reads are bound.
\<close>

lemma try_body:
  assumes "lang st = Some name" and "code st = Some src"
  shows "seq (resolve env) (render env) st =
     (case lexer_for env name of
        Returns x \<Rightarrow>
          (case highlight env src x of
             Returns b \<Rightarrow> Done (st\<lparr>lex_local := Some x, rv := Some (Bytes b)\<rparr>)
           | Raises e \<Rightarrow> Raised e (st\<lparr>lex_local := Some x\<rparr>)
           | Hangs \<Rightarrow> Stuck)
      | Raises e \<Rightarrow> Raised e st
      | Hangs \<Rightarrow> Stuck)"
proof (cases "lexer_for env name")
  case (Returns x)
  then have "resolve env st = Done (st\<lparr>lex_local := Some x\<rparr>)"
    using assms by (simp add: resolve_lexer_for)
  moreover have "render env (st\<lparr>lex_local := Some x\<rparr>) =
     (case highlight env src x of
        Returns b \<Rightarrow> Done (st\<lparr>lex_local := Some x, rv := Some (Bytes b)\<rparr>)
      | Raises e \<Rightarrow> Raised e (st\<lparr>lex_local := Some x\<rparr>)
      | Hangs \<Rightarrow> Stuck)"
    using assms by (simp add: render_highlight)
  ultimately show ?thesis
    using Returns by (simp add: seq_def)
next
  case (Raises e)
  then have "resolve env st = Raised e st"
    using assms by (simp add: resolve_lexer_for)
  then show ?thesis
    using Raises by (simp add: seq_def)
next
  case Hangs
  then show ?thesis
    by (simp add: lexer_for_not_Hangs)
qed

text \<open>
  The value of \<^verbatim>\<open>rv\<close> after lines 137 to 151. The variable \<^verbatim>\<open>lex\<close> is either
  assigned or left as it was.
\<close>

lemma make_reply_payload_for:
  assumes "lang st = Some name" and "code st = Some src"
  shows "\<exists>lx. make_reply env st =
     (case payload_for env name src of
        Returns v \<Rightarrow> Done (st\<lparr>rv := Some v, lex_local := lx\<rparr>)
      | Raises e \<Rightarrow> Raised e (st\<lparr>rv := Some (Str []), lex_local := lx\<rparr>)
      | Hangs \<Rightarrow> Stuck)"
proof -
  let ?st1 = "st\<lparr>rv := Some (Str [])\<rparr>"
  have body: "seq (resolve env) (render env) ?st1 =
     (case lexer_for env name of
        Returns x \<Rightarrow>
          (case highlight env src x of
             Returns b \<Rightarrow> Done (?st1\<lparr>lex_local := Some x, rv := Some (Bytes b)\<rparr>)
           | Raises e \<Rightarrow> Raised e (?st1\<lparr>lex_local := Some x\<rparr>)
           | Hangs \<Rightarrow> Stuck)
      | Raises e \<Rightarrow> Raised e ?st1
      | Hangs \<Rightarrow> Stuck)"
    using assms by (simp add: try_body)
  show ?thesis
  proof (cases "lexer_for env name")
    case (Returns x)
    show ?thesis
      apply (rule exI [of _ "Some x"])
      using Returns body
      by (simp add: make_reply_def seq_def try_except_def payload_for_def error_reply_def
          split: call.split)
  next
    case (Raises e)
    show ?thesis
      apply (rule exI [of _ "lex_local st"])
      using Raises body
      by (simp add: make_reply_def seq_def try_except_def payload_for_def error_reply_def)
  next
    case Hangs
    then show ?thesis
      by (simp add: lexer_for_not_Hangs)
  qed
qed

lemma receive_two:
  "decode l = Returns name \<Longrightarrow> decode c = Returns src \<Longrightarrow>
   receive [l, c] st = Done (st\<lparr>lang := Some name, code := Some src\<rparr>)"
  by (simp add: receive_def)

lemma decode_not_Hangs: "decode bs \<noteq> Hangs"
  by (simp add: decode_def split: option.split)

text \<open>One turn of the loop on a message of two frames that decode.\<close>

lemma loop_body_two:
  assumes "decode l = Returns name" and "decode c = Returns src"
  shows "\<exists>lx. loop_body env [l, c] st =
     (case sent (payload_for env name src) of
        Returns v \<Rightarrow>
          Returns (v, st\<lparr>lang := Some name, code := Some src, rv := Some v, lex_local := lx\<rparr>)
      | Raises e \<Rightarrow> Raises e
      | Hangs \<Rightarrow> Hangs)"
proof -
  let ?st0 = "st\<lparr>lang := Some name, code := Some src\<rparr>"
  obtain lx where m: "make_reply env ?st0 =
     (case payload_for env name src of
        Returns v \<Rightarrow> Done (?st0\<lparr>rv := Some v, lex_local := lx\<rparr>)
      | Raises e \<Rightarrow> Raised e (?st0\<lparr>rv := Some (Str []), lex_local := lx\<rparr>)
      | Hangs \<Rightarrow> Stuck)"
    using make_reply_payload_for [of ?st0 name src env] by auto
  have "loop_body env [l, c] st =
     (case sent (payload_for env name src) of
        Returns v \<Rightarrow> Returns (v, ?st0\<lparr>rv := Some v, lex_local := lx\<rparr>)
      | Raises e \<Rightarrow> Raises e
      | Hangs \<Rightarrow> Hangs)"
    using assms m
    by (simp add: loop_body_def seq_def receive_two sent_def split: call.split)
  then show ?thesis
    by auto
qed

text \<open>The reply of a turn of the loop is a function of the message alone.\<close>

lemma reply_loop_body: "reply (loop_body env frames st) = outcome env frames"
proof (cases "\<exists>l c. frames = [l, c]")
  case False
  then have "receive frames st =
      Raised (Exn ValueError (lit ''wrong number of values to unpack (expected 2)'')) st"
    by (auto simp: receive_def split: list.split)
  moreover have "outcome env frames =
      Raises (Exn ValueError (lit ''wrong number of values to unpack (expected 2)''))"
    using False by (auto simp: outcome_def split: list.split)
  ultimately show ?thesis
    by (simp add: loop_body_def seq_def reply_def)
next
  case True
  then obtain l c where f: "frames = [l, c]"
    by auto
  show ?thesis
  proof (cases "decode l")
    case (Returns name)
    note dl = this
    show ?thesis
    proof (cases "decode c")
      case (Returns src)
      obtain lx where "loop_body env [l, c] st =
         (case sent (payload_for env name src) of
            Returns v \<Rightarrow>
              Returns (v, st\<lparr>lang := Some name, code := Some src, rv := Some v, lex_local := lx\<rparr>)
          | Raises e \<Rightarrow> Raises e
          | Hangs \<Rightarrow> Hangs)"
        using loop_body_two [OF dl Returns] by blast
      then show ?thesis
        using f dl Returns by (simp add: reply_def outcome_def split: call.split)
    next
      case (Raises e)
      then show ?thesis
        using f dl by (simp add: loop_body_def seq_def receive_def reply_def outcome_def)
    next
      case Hangs
      then show ?thesis
        by (simp add: decode_not_Hangs)
    qed
  next
    case (Raises e)
    then show ?thesis
      using f by (simp add: loop_body_def seq_def receive_def reply_def outcome_def)
  next
    case Hangs
    then show ?thesis
      by (simp add: decode_not_Hangs)
  qed
qed

section \<open>The TOML grammar on the scenario of the specification\<close>

lemma Rep_2: "Rep 2 r = Seq r (Seq r Eps)"
  by (simp add: numeral_2_eq_2)

lemma Rep_4: "Rep 4 r = Seq r (Seq r (Seq r (Seq r Eps)))"
  by (simp add: numeral_eq_Suc)

lemmas regex_forms =
  Opt_def Plus_def Cat_def Lits_def Rep_2 Rep_4 is_space_def is_digit_def dquote_def
  backslash_def TOMLLexer_tokens_def

lemmas token_defs =
  Token_Text_def Token_Error_def Token_Comment_Single_def Token_String_def
  Token_Keyword_Constant_def Token_Name_def Token_Number_Integer_def Token_Number_Float_def
  Token_Punctuation_def Token_Operator_def

text \<open>
  The text \<^verbatim>\<open>key = "value"\<close> followed by a line feed is the code points
  107 101 121 32 61 32 34 118 97 108 117 101 34 10. At each position where a token
  starts, the first rule of the table that matches:
\<close>

lemma at_key:
  "first_match nd TOMLLexer_tokens [107, 101, 121, 32, 61, 32, 34, 118, 97, 108, 117, 101, 34, 10]
   = Some (Token_Name, [32, 61, 32, 34, 118, 97, 108, 117, 101, 34, 10])"
  by (simp add: regex_forms)

lemma at_space_1:
  "first_match nd TOMLLexer_tokens [32, 61, 32, 34, 118, 97, 108, 117, 101, 34, 10]
   = Some (Token_Text, [61, 32, 34, 118, 97, 108, 117, 101, 34, 10])"
  by (simp add: regex_forms)

lemma at_equals:
  "first_match nd TOMLLexer_tokens [61, 32, 34, 118, 97, 108, 117, 101, 34, 10]
   = Some (Token_Operator, [32, 34, 118, 97, 108, 117, 101, 34, 10])"
  by (simp add: regex_forms)

lemma at_space_2:
  "first_match nd TOMLLexer_tokens [32, 34, 118, 97, 108, 117, 101, 34, 10]
   = Some (Token_Text, [34, 118, 97, 108, 117, 101, 34, 10])"
  by (simp add: regex_forms)

lemma at_string:
  "first_match nd TOMLLexer_tokens [34, 118, 97, 108, 117, 101, 34, 10]
   = Some (Token_String, [10])"
  by (simp add: regex_forms)

lemma at_newline:
  "first_match nd TOMLLexer_tokens [10] = Some (Token_Text, [])"
  by (simp add: regex_forms)

lemma at_end:
  "first_match nd TOMLLexer_tokens [] = None"
  by (simp add: regex_forms)

lemma preprocess_key_value:
  "preprocess (lit (''key = '' @ [dquote] @ ''value'' @ [dquote]))
   = [107, 101, 121, 32, 61, 32, 34, 118, 97, 108, 117, 101, 34, 10]"
  by (simp add: preprocess_def lit_def dquote_def ensure_nl_def strip_nl_def replace_cr_def)

lemma decode_key_value:
  "decode (''key = '' @ [dquote] @ ''value'' @ [dquote])
   = Returns (lit (''key = '' @ [dquote] @ ''value'' @ [dquote]))"
  by (simp add: decode_def lit_def dquote_def)

lemma TOMLLexer_key_value:
  "TOMLLexer_get_tokens nd (lit (''key = '' @ [dquote] @ ''value'' @ [dquote])) =
   Some [(Token_Name, lit ''key''), (Token_Text, lit '' ''), (Token_Operator, lit ''=''),
         (Token_Text, lit '' ''), (Token_String, lit ([dquote] @ ''value'' @ [dquote])),
         (Token_Text, [10])]"
  unfolding TOMLLexer_get_tokens_def preprocess_key_value
  by (simp add: at_key at_space_1 at_equals at_space_2 at_string at_newline at_end
      lit_def dquote_def)

section \<open>The TOML lexer always returns\<close>

lemma ends_le: "s' \<in> set (ends nd r s) \<Longrightarrow> length s' \<le> length s"
proof (induction nd r s arbitrary: s' rule: ends.induct)
  case (9 nd a b s)
  have "s' \<in> set (concat (map (ends nd b) (ends nd a s)))"
    using "9.prems" by (simp only: ends.simps)
  then obtain m where m: "m \<in> set (ends nd a s)" and s': "s' \<in> set (ends nd b m)"
    by (auto simp del: ends.simps)
  from "9.IH"(1) [OF m] "9.IH"(2) [OF m s'] show ?case
    by simp
next
  case (10 nd a b s)
  have "s' \<in> set (ends nd a s @ ends nd b s)"
    using "10.prems" by (simp only: ends.simps)
  then show ?case
    using "10.IH" by (auto simp del: ends.simps)
next
  case (11 nd a s)
  show ?case
  proof (cases "s' = s")
    case True
    then show ?thesis by simp
  next
    case False
    have "s' \<in> set (concat (map (ends nd (Star a))
        (filter (\<lambda>s'. length s' < length s) (ends nd a s))) @ [s])"
      using "11.prems" by (simp only: ends.simps)
    with False obtain m where m: "m \<in> set (ends nd a s)" and lt: "length m < length s"
      and s': "s' \<in> set (ends nd (Star a) m)"
      by (auto simp del: ends.simps)
    have "m \<in> set (filter (\<lambda>s'. length s' < length s) (ends nd a s))"
      using m lt by simp
    from "11.IH"(2) [OF this s'] lt show ?thesis
      by simp
  qed
next
  case (12 nd a s)
  show ?case
  proof (cases "s' = s")
    case True
    then show ?thesis by simp
  next
    case False
    have "s' \<in> set (s # concat (map (ends nd (LazyStar a))
        (filter (\<lambda>s'. length s' < length s) (ends nd a s))))"
      using "12.prems" by (simp only: ends.simps)
    with False obtain m where m: "m \<in> set (ends nd a s)" and lt: "length m < length s"
      and s': "s' \<in> set (ends nd (LazyStar a) m)"
      by (auto simp del: ends.simps)
    have "m \<in> set (filter (\<lambda>s'. length s' < length s) (ends nd a s))"
      using m lt by simp
    from "12.IH"(2) [OF this s'] lt show ?thesis
      by simp
  qed
qed (auto split: list.splits if_splits)

lemma ends_lt: "consuming r \<Longrightarrow> s' \<in> set (ends nd r s) \<Longrightarrow> length s' < length s"
proof (induction r arbitrary: s s')
  case (Seq a b)
  have "s' \<in> set (concat (map (ends nd b) (ends nd a s)))"
    using Seq.prems(2) by (simp only: ends.simps)
  then obtain m where m: "m \<in> set (ends nd a s)" and s': "s' \<in> set (ends nd b m)"
    by (auto simp del: ends.simps)
  from Seq.prems(1) consider "consuming a" | "consuming b"
    by auto
  then show ?case
  proof cases
    case 1
    then have "length m < length s"
      using Seq.IH(1) m by blast
    moreover have "length s' \<le> length m"
      using s' by (rule ends_le)
    ultimately show ?thesis
      by simp
  next
    case 2
    then have "length s' < length m"
      using Seq.IH(2) s' by blast
    moreover have "length m \<le> length s"
      using m by (rule ends_le)
    ultimately show ?thesis
      by simp
  qed
next
  case (Alt a b)
  have "s' \<in> set (ends nd a s @ ends nd b s)"
    using Alt.prems(2) by (simp only: ends.simps)
  then show ?case
    using Alt.IH Alt.prems(1) by (auto simp del: ends.simps)
next
  case (Star r)
  from Star.prems(1) show ?case
    by simp
next
  case (LazyStar r)
  from LazyStar.prems(1) show ?case
    by simp
qed (auto split: list.splits if_splits)

lemma first_match_lt:
  "list_all (\<lambda>(r, t). consuming r) rules \<Longrightarrow> first_match nd rules s = Some (t, s') \<Longrightarrow>
   length s' < length s"
proof (induction rules)
  case Nil
  then show ?case by simp
next
  case (Cons rt rules)
  obtain r t0 where rt: "rt = (r, t0)"
    by (cases rt)
  show ?case
  proof (cases "ends nd r s")
    case Nil
    then show ?thesis
      using Cons.IH Cons.prems rt by simp
  next
    case ms: (Cons m ms)
    then have "s' = m" and "m \<in> set (ends nd r s)"
      using Cons.prems(2) rt by simp_all
    moreover have "consuming r"
      using Cons.prems(1) rt by simp
    ultimately show ?thesis
      using ends_lt by blast
  qed
qed

lemma get_tokens_unprocessed_returns:
  "list_all (\<lambda>(r, t). consuming r) rules \<Longrightarrow> get_tokens_unprocessed nd rules s \<noteq> None"
proof (induction nd rules s rule: get_tokens_unprocessed.induct)
  case (1 nd rules)
  show ?case
  proof (cases "first_match nd rules []")
    case None
    then show ?thesis by simp
  next
    case (Some m)
    obtain t s' where "m = (t, s')"
      by (cases m)
    then have "length s' < length ([] :: str)"
      using first_match_lt [OF "1.prems"] Some by blast
    then show ?thesis by simp
  qed
next
  case (2 nd rules c s)
  show ?case
  proof (cases "first_match nd rules (c # s)")
    case None
    then show ?thesis
      using "2.IH"(1) "2.prems" by simp
  next
    case (Some m)
    obtain t s' where m: "m = (t, s')"
      by (cases m)
    have lt: "length s' < length (c # s)"
      using first_match_lt [OF "2.prems"] Some m by blast
    have "get_tokens_unprocessed nd rules s' \<noteq> None"
      using "2.IH"(2) [OF Some m [symmetric] lt "2.prems"] .
    then show ?thesis
      using Some m lt by auto
  qed
qed

lemma TOMLLexer_rules_consuming: "list_all (\<lambda>(r, t). consuming r) TOMLLexer_tokens"
  by (simp add: TOMLLexer_tokens_def Opt_def Plus_def Cat_def Lits_def Rep_2 Rep_4)

text \<open>
  No rule of the TOML table matches the empty text, so the lexer yields a token stream
  for every source text.
\<close>

lemma TOMLLexer_get_tokens_returns: "TOMLLexer_get_tokens nd text \<noteq> None"
  by (simp add: TOMLLexer_get_tokens_def get_tokens_unprocessed_returns TOMLLexer_rules_consuming)

lemma get_tokens_TOMLLexer: "\<exists>ts. get_tokens env TOMLLexer src = Returns ts"
  using TOMLLexer_get_tokens_returns [of "decimal env" src]
  by (auto simp: get_tokens_def split: option.split)

section \<open>The instance of the library on concrete requests\<close>

lemma sample_fields [simp]:
  "registry sample = sample_registry"
  "library_get_tokens sample = sample_get_tokens"
  "format sample = sample_format"
  by (simp_all add: sample_def)

lemma sample_registry_text [simp]: "sample_registry (lit ''text'') = Some PlainText"
  by (simp add: sample_registry_def)

lemma sample_registry_toml [simp]: "sample_registry (lit ''toml'') = Some OtherToml"
  by (simp add: sample_registry_def lit_def)

lemma sample_registry_broken [simp]: "sample_registry (lit ''broken'') = Some Broken"
  by (simp add: sample_registry_def lit_def)

lemma sample_registry_unknown [simp]:
  "sample_registry (lit ''not-a-real-language'') = None"
  "sample_registry (lit ''TOML'') = None"
  by (simp_all add: sample_registry_def lit_def)

lemma decode_samples [simp]:
  "decode ''hello'' = Returns (lit ''hello'')"
  "decode ''broken'' = Returns (lit ''broken'')"
  "decode ''not-a-real-language'' = Returns (lit ''not-a-real-language'')"
  "decode ''x'' = Returns (lit ''x'')"
  "decode ''y'' = Returns (lit ''y'')"
  by (simp_all add: decode_def lit_def)

lemma decode_latin1:
  "decode [CHR 0xE9] = Raises (Exn UnicodeDecodeError (lit ''utf-8 codec cannot decode the bytes''))"
  by (simp add: decode_def)

lemma lit_samples [simp]:
  "lit ''not-a-real-language'' \<noteq> lit ''gdb''" "lit ''not-a-real-language'' \<noteq> lit ''toml''"
  "lit ''TOML'' \<noteq> lit ''gdb''" "lit ''TOML'' \<noteq> lit ''toml''"
  "lit ''broken'' \<noteq> lit ''gdb''" "lit ''broken'' \<noteq> lit ''toml''"
  by (simp_all add: lit_def)

lemma highlight_sample_hello:
  "highlight sample (lit ''hello'') (Library PlainText) = Returns (''hello'' @ [CHR 0x0A])"
  by (simp add: highlight_def get_tokens_def sample_get_tokens_def sample_format_def
      preprocess_def ensure_nl_def strip_nl_def replace_cr_def lit_def span_def short_name_def
      token_defs escape_html_def encode_def char_of_def bit_Suc_0_iff)

lemma highlight_sample_broken:
  "highlight sample src (Library Broken) = Raises (Exn ValueError (lit ''unsupported input''))"
  by (simp add: highlight_def get_tokens_def sample_get_tokens_def)

lemma sample_format_key_value:
  "sample_format
     [(Token_Name, lit ''key''), (Token_Text, lit '' ''), (Token_Operator, lit ''=''),
      (Token_Text, lit '' ''), (Token_String, lit ([dquote] @ ''value'' @ [dquote])),
      (Token_Text, [10])]
   = Returns (''<span class='' @ [dquote] @ ''n'' @ [dquote] @ ''>key</span> ''
        @ ''<span class='' @ [dquote] @ ''o'' @ [dquote] @ ''>=</span> ''
        @ ''<span class='' @ [dquote] @ ''s'' @ [dquote] @ ''>&quot;value&quot;</span>''
        @ [CHR 0x0A])"
  by (simp add: sample_format_def lit_def span_def short_name_def token_defs escape_html_def
      encode_def dquote_def char_of_def bit_Suc_0_iff)

section \<open>Shared facts about the turn of the loop\<close>

lemma lexer_for_unknown:
  "name \<noteq> lit ''gdb'' \<Longrightarrow> name \<noteq> lit ''toml'' \<Longrightarrow> registry env name = None \<Longrightarrow>
   lexer_for env name = get_lexer_by_name env (lit ''text'')"
  by (simp add: lexer_for_def)

lemma lexer_for_text: "lexer_for env (lit ''text'') = get_lexer_by_name env (lit ''text'')"
  by (simp add: lexer_for_def get_lexer_by_name_def split: option.split)

lemma lexer_for_registered:
  "name \<noteq> lit ''gdb'' \<Longrightarrow> name \<noteq> lit ''toml'' \<Longrightarrow> registry env name = Some l \<Longrightarrow>
   lexer_for env name = Returns (Library l)"
  by (simp add: lexer_for_def)

lemma render_Done: "render env s = Done s' \<Longrightarrow> \<exists>b. s' = s\<lparr>rv := Some (Bytes b)\<rparr>"
  by (auto simp: render_def split: option.splits call.splits)

lemma loop_body_rendered:
  assumes "decode l = Returns name" and "decode c = Returns src"
    and "lexer_for env name = Returns x" and "highlight env src x = Returns b"
  shows "loop_body env [l, c] st =
     Returns (Bytes b,
       st\<lparr>lang := Some name, code := Some src, rv := Some (Bytes b), lex_local := Some x\<rparr>)"
proof -
  have "sent (payload_for env name src) = Returns (Bytes b)"
    using assms by (simp add: sent_def payload_for_def socket_send_def)
  moreover obtain lx where lb: "loop_body env [l, c] st =
     (case sent (payload_for env name src) of
        Returns v \<Rightarrow>
          Returns (v, st\<lparr>lang := Some name, code := Some src, rv := Some v, lex_local := lx\<rparr>)
      | Raises e \<Rightarrow> Raises e
      | Hangs \<Rightarrow> Hangs)"
    using loop_body_two [OF assms(1,2)] by blast
  ultimately have r: "loop_body env [l, c] st =
     Returns (Bytes b,
       st\<lparr>lang := Some name, code := Some src, rv := Some (Bytes b), lex_local := lx\<rparr>)"
    by simp
  let ?st1 = "st\<lparr>lang := Some name, code := Some src, rv := Some (Str [])\<rparr>"
  have "seq (resolve env) (render env) ?st1 =
      Done (?st1\<lparr>lex_local := Some x, rv := Some (Bytes b)\<rparr>)"
    using assms by (simp add: try_body)
  then have "loop_body env [l, c] st =
      Returns (Bytes b, ?st1\<lparr>lex_local := Some x, rv := Some (Bytes b)\<rparr>)"
    using assms
    by (simp add: loop_body_def seq_def receive_two make_reply_def try_except_def socket_send_def)
  then show ?thesis
    by simp
qed

lemma loop_body_error_reply:
  assumes "decode l = Returns name" and "decode c = Returns src"
    and "payload_for env name src = Returns (Str s)"
  shows "loop_body env [l, c] st =
     Raises (Exn TypeError (lit ''unicode not allowed, use send_string''))"
proof -
  have "sent (payload_for env name src) =
      Raises (Exn TypeError (lit ''unicode not allowed, use send_string''))"
    using assms by (simp add: sent_def socket_send_def)
  then show ?thesis
    using loop_body_two [OF assms(1,2), of env st] by auto
qed

text \<open>The failures that leave the loop body.\<close>

lemma loop_body_wrong_frames:
  "length frames \<noteq> 2 \<Longrightarrow>
   loop_body env frames st =
     Raises (Exn ValueError (lit ''wrong number of values to unpack (expected 2)''))"
proof -
  assume "length frames \<noteq> 2"
  then have "receive frames st =
      Raised (Exn ValueError (lit ''wrong number of values to unpack (expected 2)'')) st"
    by (auto simp: receive_def split: list.split)
  then show ?thesis
    by (simp add: loop_body_def seq_def)
qed

lemma loop_body_undecodable:
  "decode l = Raises e \<or> (decode l = Returns name \<and> decode c = Raises e) \<Longrightarrow>
   loop_body env [l, c] st = Raises e"
  by (auto simp: loop_body_def seq_def receive_def)

lemma loop_body_other_exception:
  assumes "decode l = Returns name" and "decode c = Returns src"
    and "seq (resolve env) (render env)
           (st\<lparr>lang := Some name, code := Some src, rv := Some (Str [])\<rparr>) = Raised e st'"
    and "\<not> isinstance e ValueError"
  shows "loop_body env [l, c] st = Raises e"
  using assms
  by (simp add: loop_body_def seq_def receive_two make_reply_def try_except_def)

text \<open>
  The replies of the loop and the way the thread ends are a function of the messages
  alone.
\<close>

lemma worker_loop_store: "worker_loop env st1 ms = worker_loop env st2 ms"
proof (induction ms arbitrary: st1 st2)
  case Nil
  show ?case by simp
next
  case (Cons m ms)
  have r: "reply (loop_body env m st1) = reply (loop_body env m st2)"
    by (simp add: reply_loop_body)
  show ?case
  proof (cases "loop_body env m st1")
    case (Returns p)
    obtain v s1 where p: "p = (v, s1)"
      by (cases p)
    with Returns r obtain s2 where "loop_body env m st2 = Returns (v, s2)"
      by (auto simp: reply_def split: call.splits)
    then show ?thesis
      using Returns p Cons.IH [of s1 s2] by simp
  next
    case (Raises e)
    with r have "loop_body env m st2 = Raises e"
      by (auto simp: reply_def split: call.splits)
    then show ?thesis
      using Raises by simp
  next
    case Hangs
    with r have "loop_body env m st2 = Hangs"
      by (auto simp: reply_def split: call.splits)
    then show ?thesis
      using Hangs by simp
  qed
qed

lemma created_append: "created (xs @ ys) = created xs @ created ys"
  by (induction xs rule: created.induct) simp_all

lemma started_append: "started (xs @ ys) = started xs @ started ys"
  by (induction xs rule: started.induct) simp_all

lemma created_spawn: "created (concat (map (\<lambda>i. [Worker_new i, Worker_daemon i, Worker_start i]) is)) = is"
  by (induction "is") simp_all

lemma started_spawn: "started (concat (map (\<lambda>i. [Worker_new i, Worker_daemon i, Worker_start i]) is)) = is"
  by (induction "is") simp_all

lemma no_Proxy_spawn:
  "Proxy \<notin> set (concat (map (\<lambda>i. [Worker_new i, Worker_daemon i, Worker_start i]) is))"
  by (induction "is") simp_all

lemma before_Proxy:
  "takeWhile (\<lambda>a. a \<noteq> Proxy) (ServerTask_run sz) =
     [Context_new, Socket_new Frontend, Bind Frontend ''tcp://127.0.0.1:5555'',
      Socket_new Backend, Bind Backend ''inproc://backend''] @ spawn_workers sz"
proof -
  have "takeWhile (\<lambda>a. a \<noteq> Proxy) (spawn_workers sz @ [Proxy, Close Frontend, Close Backend, Context_term])
      = spawn_workers sz"
  proof -
    have "\<And>a. a \<in> set (spawn_workers sz) \<Longrightarrow> a \<noteq> Proxy"
      using no_Proxy_spawn [of "py_range (sz + 1)"] by (auto simp: spawn_workers_def)
    then show ?thesis
      by (simp add: takeWhile_append2)
  qed
  then show ?thesis
    by (simp add: ServerTask_run_def)
qed

section \<open>Well-formed text and the plain-text rendering\<close>

text \<open>
  What the worker decodes is well-formed text, the normalisation of the lexer keeps it
  well-formed, and the normalised text is never empty: it ends with a line feed.
\<close>

lemma utf8_well_formed: "utf8 bs = Some s \<Longrightarrow> well_formed s"
proof (induction bs arbitrary: s rule: length_induct)
  case (1 bs)
  show ?case
  proof (cases bs)
    case Nil
    with 1 show ?thesis
      by (simp add: well_formed_def)
  next
    case (Cons b r)
    have ih: "\<And>r' s'. length r' < length bs \<Longrightarrow> utf8 r' = Some s' \<Longrightarrow> well_formed s'"
      using "1.IH" by blast
    consider (one) "b < 128" | (two) "194 \<le> b \<and> b < 224" | (three) "224 \<le> b \<and> b < 240"
      | (four) "240 \<le> b \<and> b < 245" | (bad) "(128 \<le> b \<and> b < 194) \<or> 245 \<le> b"
      by linarith
    then show ?thesis
    proof cases
      case one
      with "1.prems" Cons obtain s' where "utf8 r = Some s'" and "s = b # s'"
        by auto
      moreover have "well_formed s'"
        using ih [of r s'] Cons calculation by simp
      ultimately show ?thesis
        using one by (simp add: well_formed_def valid_point_def)
    next
      case two
      with "1.prems" Cons obtain b1 r' s' where r: "r = b1 # r'" and c: "is_cont b1"
        and u: "utf8 r' = Some s'" and s: "s = ((b - 192) * 64 + (b1 - 128)) # s'"
        by (auto split: list.splits if_splits)
      have "well_formed s'"
        using ih [of r' s'] Cons r u by simp
      moreover have "(b - 192) * 64 + (b1 - 128) < 55296"
        using two c unfolding is_cont_def by arith
      ultimately show ?thesis
        using s by (simp add: well_formed_def valid_point_def)
    next
      case three
      with "1.prems" Cons obtain b1 b2 r' s' where r: "r = b1 # b2 # r'"
        and c1: "(if b = 224 then 160 else 128) \<le> b1" "b1 < (if b = 237 then 160 else 192)"
        and c2: "is_cont b2"
        and u: "utf8 r' = Some s'"
        and s: "s = ((b - 224) * 4096 + (b1 - 128) * 64 + (b2 - 128)) # s'"
        by (auto split: list.splits if_splits)
      have "well_formed s'"
        using ih [of r' s'] Cons r u by simp
      moreover have "valid_point ((b - 224) * 4096 + (b1 - 128) * 64 + (b2 - 128))"
      proof (cases "b \<le> 237")
        case True
        then have "(b - 224) * 4096 + (b1 - 128) * 64 + (b2 - 128) < 55296"
          using three c1 c2 by (auto simp: is_cont_def split: if_splits)
        then show ?thesis
          by (simp add: valid_point_def)
      next
        case False
        then have "57344 \<le> (b - 224) * 4096 + (b1 - 128) * 64 + (b2 - 128)"
          "(b - 224) * 4096 + (b1 - 128) * 64 + (b2 - 128) < 1114112"
          using three c1 c2 by (auto simp: is_cont_def split: if_splits)
        then show ?thesis
          by (simp add: valid_point_def)
      qed
      ultimately show ?thesis
        using s by (simp add: well_formed_def)
    next
      case four
      with "1.prems" Cons obtain b1 b2 b3 r' s' where r: "r = b1 # b2 # b3 # r'"
        and c1: "(if b = 240 then 144 else 128) \<le> b1" "b1 < (if b = 244 then 144 else 192)"
        and c2: "is_cont b2" and c3: "is_cont b3"
        and u: "utf8 r' = Some s'"
        and s: "s = ((b - 240) * 262144 + (b1 - 128) * 4096 + (b2 - 128) * 64 + (b3 - 128)) # s'"
        by (auto split: list.splits if_splits)
      have "well_formed s'"
        using ih [of r' s'] Cons r u by simp
      moreover have "57344 \<le> (b - 240) * 262144 + (b1 - 128) * 4096 + (b2 - 128) * 64 + (b3 - 128)"
        "(b - 240) * 262144 + (b1 - 128) * 4096 + (b2 - 128) * 64 + (b3 - 128) < 1114112"
        using four c1 c2 c3 by (auto simp: is_cont_def split: if_splits)
      ultimately show ?thesis
        using s by (simp add: well_formed_def valid_point_def)
    next
      case bad
      with "1.prems" Cons show ?thesis
        by (auto split: if_splits)
    qed
  qed
qed


lemma decode_well_formed: "decode bs = Returns s \<Longrightarrow> well_formed s"
  by (auto simp: decode_def utf8_well_formed split: option.splits)

lemma set_replace_crlf: "set (replace_crlf s) \<subseteq> insert 10 (set s)"
  by (induction s rule: replace_crlf.induct) auto

lemma set_dropWhile_subset: "set (dropWhile P xs) \<subseteq> set xs"
  by (auto dest: set_dropWhileD)

lemma set_strip_nl: "set (strip_nl u) \<subseteq> set u"
proof -
  have "set (strip_nl u) \<subseteq> set (rev (dropWhile (\<lambda>c. c = 10) u))"
    using set_dropWhile_subset [of "\<lambda>c. c = 10" "rev (dropWhile (\<lambda>c. c = 10) u)"]
    by (simp add: strip_nl_def)
  also have "\<dots> \<subseteq> set u"
    using set_dropWhile_subset [of "\<lambda>c. c = 10" u] by simp
  finally show ?thesis .
qed

lemma set_preprocess: "set (preprocess s) \<subseteq> insert 10 (set s)"
proof -
  let ?a = "case s of [] \<Rightarrow> [] | c # r \<Rightarrow> if c = 65279 then r else c # r"
  have a: "set ?a \<subseteq> set s"
    by (auto split: list.splits)
  have b: "set (replace_crlf ?a) \<subseteq> insert 10 (set ?a)"
    by (rule set_replace_crlf)
  have c: "set (replace_cr (replace_crlf ?a)) \<subseteq> insert 10 (set (replace_crlf ?a))"
    by (auto simp: replace_cr_def)
  have d: "set (strip_nl (replace_cr (replace_crlf ?a))) \<subseteq> set (replace_cr (replace_crlf ?a))"
    by (rule set_strip_nl)
  have e: "set (preprocess s) \<subseteq> insert 10 (set (strip_nl (replace_cr (replace_crlf ?a))))"
    by (auto simp: preprocess_def ensure_nl_def)
  show ?thesis
    using a b c d e by blast
qed

lemma preprocess_well_formed: "well_formed s \<Longrightarrow> well_formed (preprocess s)"
proof -
  assume "well_formed s"
  then have "\<forall>c \<in> insert 10 (set s). valid_point c"
    by (simp add: well_formed_def list_all_iff valid_point_def)
  then show ?thesis
    using set_preprocess [of s] by (auto simp: well_formed_def list_all_iff)
qed

lemma preprocess_not_empty: "preprocess s \<noteq> []"
  by (simp add: preprocess_def ensure_nl_def)


lemma unknown_reply_as_text:
  assumes "decode l = Returns name" and "name \<noteq> lit ''gdb''" and "name \<noteq> lit ''toml''"
    and "registry env name = None"
  shows "reply (loop_body env [l, c] st) = reply (loop_body env [''text'', c] st)"
proof -
  have same: "payload_for env name src' = payload_for env (lit ''text'') src'" for src'
    using assms by (simp add: payload_for_def lexer_for_unknown lexer_for_text)
  have "outcome env [l, c] = outcome env [''text'', c]"
    using assms(1) by (simp add: outcome_def same split: call.split)
  then show ?thesis
    by (simp add: reply_loop_body)
qed

lemma concat_map_not_empty: "s \<noteq> [] \<Longrightarrow> (\<And>c. f c \<noteq> []) \<Longrightarrow> concat (map f s) \<noteq> []"
  by (cases s) auto

lemma sample_format_text:
  "s \<noteq> [] \<Longrightarrow> \<exists>b. format sample [(Token_Text, s)] = Returns b \<and> b \<noteq> []"
proof -
  assume s: "s \<noteq> []"
  have "escape_html s \<noteq> []"
    unfolding escape_html_def by (rule concat_map_not_empty [OF s]) (simp add: lit_def)
  then have "concat (map encode_point (escape_html s)) \<noteq> []"
    by (rule concat_map_not_empty) simp
  then have "encode (escape_html s) \<noteq> []"
    by (simp add: encode_def)
  moreover have "format sample [(Token_Text, s)] = Returns (encode (escape_html s))"
    by (simp add: sample_format_def span_def short_name_def token_defs)
  ultimately show ?thesis
    by simp
qed

lemma decode_marker_text:
  "decode ''Pygments Error: x'' = Returns (lit ''Pygments Error: x'')"
  by (simp add: decode_def lit_def)

lemma highlight_sample_marker_text:
  "highlight sample (lit ''Pygments Error: x'') (Library PlainText) =
     Returns (''Pygments Error: x'' @ [CHR 0x0A])"
  by (simp add: highlight_def get_tokens_def sample_get_tokens_def sample_format_def
      preprocess_def ensure_nl_def strip_nl_def replace_cr_def lit_def span_def short_name_def
      token_defs escape_html_def encode_def char_of_def bit_Suc_0_iff)

section \<open>The claims\<close>

text \<open>
  Claim C2 says that the worker sends exactly one reply for every request that reaches
  it and that no failure in handling a request ends its loop. As stated this fails:
  the frames are decoded outside the \<^verbatim>\<open>try\<close> statement, so a request whose source
  text is the single byte E9 (Latin-1, not UTF-8) raises \<^verbatim>\<open>UnicodeDecodeError\<close> out of
  the loop. The worker has then sent nothing, and the request that follows is not
  served either.
\<close>

theorem reply_for_every_request_counterexample:
  "ServerWorker_run sample [[''text'', [CHR 0xE9]], [''text'', ''hello'']] =
     ([], Died (Exn UnicodeDecodeError (lit ''utf-8 codec cannot decode the bytes'')))"
  by (simp add: ServerWorker_run_def loop_body_def seq_def receive_def decode_latin1)

text \<open>
  Claim C2, amended: for every message of exactly two frames that both decode as
  UTF-8, if the body of the \<^verbatim>\<open>try\<close> statement (the resolution of the grammar and
  \<^verbatim>\<open>highlight\<close>, lines 139 to 149) completes without raising, then the turn of the loop
  sends exactly one reply, the bytes that \<^verbatim>\<open>highlight\<close> returned, and the worker goes
  on to the messages that follow.
\<close>

theorem worker_replies_once:
  assumes "decode l = Returns name" and "decode c = Returns src"
    and "seq (resolve env) (render env)
           (st\<lparr>lang := Some name, code := Some src, rv := Some (Str [])\<rparr>) = Done st'"
  shows "\<exists>b. rv st' = Some (Bytes b)
     \<and> loop_body env [l, c] st = Returns (Bytes b, st')
     \<and> worker_loop env st ([l, c] # ms) =
         (Bytes b # fst (worker_loop env st' ms), snd (worker_loop env st' ms))"
proof -
  let ?st1 = "st\<lparr>lang := Some name, code := Some src, rv := Some (Str [])\<rparr>"
  have "seq (resolve env) (render env) ?st1 =
     (case lexer_for env name of
        Returns x \<Rightarrow>
          (case highlight env src x of
             Returns b \<Rightarrow> Done (?st1\<lparr>lex_local := Some x, rv := Some (Bytes b)\<rparr>)
           | Raises e \<Rightarrow> Raised e (?st1\<lparr>lex_local := Some x\<rparr>)
           | Hangs \<Rightarrow> Stuck)
      | Raises e \<Rightarrow> Raised e ?st1
      | Hangs \<Rightarrow> Stuck)"
    by (simp add: try_body)
  with assms(3) obtain x b where x: "lexer_for env name = Returns x"
    and b: "highlight env src x = Returns b"
    and st': "st' = ?st1\<lparr>lex_local := Some x, rv := Some (Bytes b)\<rparr>"
    by (auto split: call.splits)
  have lb: "loop_body env [l, c] st = Returns (Bytes b, st')"
    using loop_body_rendered [OF assms(1,2) x b, of st] st' by simp
  have "worker_loop env st ([l, c] # ms) =
      (Bytes b # fst (worker_loop env st' ms), snd (worker_loop env st' ms))"
    using lb by (simp add: split_beta)
  with lb st' show ?thesis
    by simp
qed

theorem worker_replies_once_witness:
  "decode ''text'' = Returns (lit ''text'') \<and> decode ''hello'' = Returns (lit ''hello'')
   \<and> (\<exists>b. loop_body sample [''text'', ''hello''] unbound =
            Returns (Bytes b,
              \<lparr>lang = Some (lit ''text''), code = Some (lit ''hello''),
               rv = Some (Bytes (''hello'' @ [CHR 0x0A])), lex_local = Some (Library PlainText)\<rparr>)
        \<and> worker_loop sample unbound [[''text'', ''hello'']] = ([Bytes b], Waiting))"
proof -
  let ?st' = "\<lparr>lang = Some (lit ''text''), code = Some (lit ''hello''),
               rv = Some (Bytes (''hello'' @ [CHR 0x0A])),
               lex_local = Some (Library PlainText :: sample_lexer lexer)\<rparr>"
  have h: "seq (resolve sample) (render sample)
      (unbound\<lparr>lang := Some (lit ''text''), code := Some (lit ''hello''), rv := Some (Str [])\<rparr>)
      = Done ?st'"
    by (simp add: try_body lexer_for_text get_lexer_by_name_returns highlight_sample_hello
        unbound_def)
  show ?thesis
    using worker_replies_once [OF decode_text decode_samples(1) h, of "[]"]
    by auto
qed

text \<open>
  Claim C3 says that a request whose rendering raises a value-level failure is answered
  with the text \<^verbatim>\<open>Pygments Error: <details>\<close> as an ordinary reply and that the next
  request is still served. The code assigns that text to \<^verbatim>\<open>rv\<close> as a \<^verbatim>\<open>str\<close> and
  passes it to \<^verbatim>\<open>socket.send\<close>, which takes \<^verbatim>\<open>bytes\<close> only: the \<^verbatim>\<open>TypeError\<close> leaves the
  loop, no reply is sent and the worker is gone for the request that follows. Here the
  first request names a lexer that rejects its input with a \<^verbatim>\<open>ValueError\<close>.
\<close>

theorem error_reply_is_not_sent:
  "ServerWorker_run sample [[''broken'', ''x''], [''text'', ''y'']] =
     ([], Died (Exn TypeError (lit ''unicode not allowed, use send_string'')))
   \<and> make_reply sample (unbound\<lparr>lang := Some (lit ''broken''), code := Some (lit ''x'')\<rparr>) =
     Done (unbound\<lparr>lang := Some (lit ''broken''), code := Some (lit ''x''),
             lex_local := Some (Library Broken),
             rv := Some (Str (lit ''Pygments Error: '' @ lit ''unsupported input''))\<rparr>)"
proof -
  have p: "payload_for sample (lit ''broken'') (lit ''x'') =
      Returns (Str (lit ''Pygments Error: '' @ lit ''unsupported input''))"
    by (simp add: payload_for_def lexer_for_registered highlight_sample_broken isinstance_def)
  have "loop_body sample [''broken'', ''x''] unbound =
      Raises (Exn TypeError (lit ''unicode not allowed, use send_string''))"
    using loop_body_error_reply [OF decode_samples(2) decode_samples(4) p] .
  moreover have "seq (resolve sample) (render sample)
       (unbound\<lparr>lang := Some (lit ''broken''), code := Some (lit ''x''), rv := Some (Str [])\<rparr>) =
     Raised (Exn ValueError (lit ''unsupported input''))
       (unbound\<lparr>lang := Some (lit ''broken''), code := Some (lit ''x''), rv := Some (Str []),
                lex_local := Some (Library Broken)\<rparr>)"
    by (simp add: try_body lexer_for_registered highlight_sample_broken)
  then have "make_reply sample (unbound\<lparr>lang := Some (lit ''broken''), code := Some (lit ''x'')\<rparr>) =
     Done (unbound\<lparr>lang := Some (lit ''broken''), code := Some (lit ''x''),
             lex_local := Some (Library Broken),
             rv := Some (Str (lit ''Pygments Error: '' @ lit ''unsupported input''))\<rparr>)"
    by (simp add: make_reply_def seq_def try_except_def isinstance_def error_reply_def)
  ultimately show ?thesis
    by (simp add: ServerWorker_run_def)
qed

text \<open>
  Claim C4: the resolution of the grammar is total. Whenever the registry knows the
  plain-text lexer under \<^verbatim>\<open>text\<close>, lines 139 to 147 complete for every language name
  and leave a lexer in \<^verbatim>\<open>lex\<close>; and for a name that is neither one of the two
  overrides nor in the registry, that lexer is the plain-text one.
\<close>

theorem resolve_total:
  assumes "registry env (lit ''text'') = Some t" and "lang st = Some name"
  shows "(\<exists>x. resolve env st = Done (st\<lparr>lex_local := Some x\<rparr>))
     \<and> (name \<noteq> lit ''gdb'' \<and> name \<noteq> lit ''toml'' \<and> registry env name = None \<longrightarrow>
          resolve env st = Done (st\<lparr>lex_local := Some (Library t)\<rparr>))"
proof -
  have "\<exists>x. lexer_for env name = Returns x"
    using assms(1) by (simp add: lexer_for_def get_lexer_by_name_def split: option.split)
  then have "\<exists>x. resolve env st = Done (st\<lparr>lex_local := Some x\<rparr>)"
    using assms(2) by (auto simp: resolve_lexer_for)
  moreover have "resolve env st = Done (st\<lparr>lex_local := Some (Library t)\<rparr>)"
    if "name \<noteq> lit ''gdb''" "name \<noteq> lit ''toml''" "registry env name = None"
    using that assms
    by (simp add: resolve_lexer_for lexer_for_unknown get_lexer_by_name_returns)
  ultimately show ?thesis
    by blast
qed

theorem resolve_total_witness:
  "registry sample (lit ''text'') = Some PlainText
   \<and> lang (unbound\<lparr>lang := Some (lit ''not-a-real-language'')\<rparr>) = Some (lit ''not-a-real-language'')
   \<and> registry sample (lit ''not-a-real-language'') = None
   \<and> resolve sample (unbound\<lparr>lang := Some (lit ''not-a-real-language'')\<rparr>) =
       Done (unbound\<lparr>lang := Some (lit ''not-a-real-language''),
                     lex_local := Some (Library PlainText)\<rparr>)"
  using resolve_total [of sample PlainText
      "unbound\<lparr>lang := Some (lit ''not-a-real-language'')\<rparr>" "lit ''not-a-real-language''"]
  by simp

text \<open>
  Claim C5: for the two names of the override table, \<^verbatim>\<open>gdb\<close> and \<^verbatim>\<open>toml\<close>, the
  resolution assigns the lexer that the script defines, whatever the registry holds
  under the same name; the comparison is the equality of strings, so any other name,
  one that differs in case included, gets a lexer of the registry and never an
  override.
\<close>

theorem override_priority:
  "(lang st = Some (lit ''gdb'') \<longrightarrow> resolve env st = Done (st\<lparr>lex_local := Some GDBLexer\<rparr>))
   \<and> (lang st = Some (lit ''toml'') \<longrightarrow> resolve env st = Done (st\<lparr>lex_local := Some TOMLLexer\<rparr>))
   \<and> (lang st = Some name \<and> name \<noteq> lit ''gdb'' \<and> name \<noteq> lit ''toml''
        \<and> resolve env st = Done st' \<longrightarrow> (\<exists>l. lex_local st' = Some (Library l)))"
proof -
  have "\<exists>l. lex_local st' = Some (Library l)"
    if "lang st = Some name" "name \<noteq> lit ''gdb''" "name \<noteq> lit ''toml''"
      "resolve env st = Done st'"
    using that
    by (auto simp: resolve_lexer_for lexer_for_def get_lexer_by_name_def
        split: option.splits call.splits)
  then show ?thesis
    by (auto simp: resolve_lexer_for lexer_for_def)
qed

theorem override_priority_witness:
  "registry sample (lit ''toml'') = Some OtherToml
   \<and> resolve sample (unbound\<lparr>lang := Some (lit ''toml'')\<rparr>) =
       Done (unbound\<lparr>lang := Some (lit ''toml''), lex_local := Some TOMLLexer\<rparr>)
   \<and> resolve sample (unbound\<lparr>lang := Some (lit ''gdb'')\<rparr>) =
       Done (unbound\<lparr>lang := Some (lit ''gdb''), lex_local := Some GDBLexer\<rparr>)
   \<and> lit ''TOML'' \<noteq> lit ''toml''
   \<and> resolve sample (unbound\<lparr>lang := Some (lit ''TOML'')\<rparr>) =
       Done (unbound\<lparr>lang := Some (lit ''TOML''), lex_local := Some (Library PlainText)\<rparr>)
   \<and> (\<exists>l. lex_local (unbound\<lparr>lang := Some (lit ''TOML''), lex_local := Some (Library PlainText)\<rparr>)
            = Some (Library (l :: sample_lexer)))"
proof -
  have r: "resolve sample (unbound\<lparr>lang := Some (lit ''TOML'')\<rparr>) =
       Done (unbound\<lparr>lang := Some (lit ''TOML''), lex_local := Some (Library PlainText)\<rparr>)"
    by (simp add: resolve_lexer_for lexer_for_unknown get_lexer_by_name_returns)
  show ?thesis
    using override_priority [where st = "unbound\<lparr>lang := Some (lit ''toml'')\<rparr>" and env = sample]
      override_priority [where st = "unbound\<lparr>lang := Some (lit ''gdb'')\<rparr>" and env = sample]
      override_priority [where st = "unbound\<lparr>lang := Some (lit ''TOML'')\<rparr>"
        and name = "lit ''TOML''" and env = sample
        and st' = "unbound\<lparr>lang := Some (lit ''TOML''), lex_local := Some (Library PlainText)\<rparr>"]
      r
    by simp
qed




text \<open>
  Claim C7: \<^verbatim>\<open>ServerTask.run\<close> with the size \<open>sz\<close> constructs and starts one worker
  for each index of \<^verbatim>\<open>range(sz + 1)\<close>, which are \<open>sz + 1\<close> workers (none when
  \<open>sz + 1\<close> is negative, as the range is then empty), each index once, and all of them
  are started before the call of \<^verbatim>\<open>zmq.proxy\<close>. For the size 4 that \<^verbatim>\<open>main\<close> passes
  these are five workers.
\<close>

theorem spawns_size_plus_one:
  "created (ServerTask_run sz) = py_range (sz + 1)
   \<and> started (ServerTask_run sz) = py_range (sz + 1)
   \<and> started (takeWhile (\<lambda>a. a \<noteq> Proxy) (ServerTask_run sz)) = py_range (sz + 1)
   \<and> length (py_range (sz + 1)) = nat (sz + 1)
   \<and> distinct (py_range (sz + 1))
   \<and> length (started main) = 5"
proof -
  have c: "created (ServerTask_run sz) = py_range (sz + 1)"
    by (simp add: ServerTask_run_def spawn_workers_def created_append created_spawn)
  have s: "started (ServerTask_run sz) = py_range (sz + 1)" for sz
    by (simp add: ServerTask_run_def spawn_workers_def started_append started_spawn)
  have b: "started (takeWhile (\<lambda>a. a \<noteq> Proxy) (ServerTask_run sz)) = py_range (sz + 1)"
    by (simp add: before_Proxy spawn_workers_def started_append started_spawn)
  have d: "distinct (py_range (sz + 1))"
    by (simp add: py_range_def distinct_map inj_on_def)
  have m: "length (started main) = 5"
    by (simp add: main_def s py_range_def)
  show ?thesis
    using c s b d m by (simp add: py_range_def)
qed

text \<open>
  Claim C8: the handler is deterministic. The reply to a message, or the failure of
  the turn of the loop, is the same whatever the local variables of the worker hold
  from the requests it has served before: two runs on the same frames give the same
  payload. So two workers that receive the same messages send the same replies.
\<close>

theorem handler_deterministic:
  "reply (loop_body env frames st1) = reply (loop_body env frames st2)
   \<and> worker_loop env st1 ms = worker_loop env st2 ms"
  using worker_loop_store [of env st1 ms st2] by (simp add: reply_loop_body)

text \<open>
  Claim C9: for the language \<^verbatim>\<open>toml\<close> and the source \<^verbatim>\<open>key = "value"\<close> the rules of
  the table of \<^verbatim>\<open>TOMLLexer\<close> yield the name token \<^verbatim>\<open>key\<close>, the operator token \<^verbatim>\<open>=\<close>
  and the string token \<^verbatim>\<open>"value"\<close>, with text tokens for the blanks and the final line
  feed; the markup that \<^verbatim>\<open>highlight\<close> returns is what the formatter writes for this
  token stream, and that markup is the reply of the worker.
\<close>

theorem toml_key_value:
  "TOMLLexer_get_tokens (decimal env) (lit (''key = '' @ [dquote] @ ''value'' @ [dquote])) =
     Some [(Token_Name, lit ''key''), (Token_Text, lit '' ''), (Token_Operator, lit ''=''),
           (Token_Text, lit '' ''), (Token_String, lit ([dquote] @ ''value'' @ [dquote])),
           (Token_Text, [10])]
   \<and> highlight env (lit (''key = '' @ [dquote] @ ''value'' @ [dquote])) TOMLLexer =
       format env
         [(Token_Name, lit ''key''), (Token_Text, lit '' ''), (Token_Operator, lit ''=''),
          (Token_Text, lit '' ''), (Token_String, lit ([dquote] @ ''value'' @ [dquote])),
          (Token_Text, [10])]
   \<and> (format env
         [(Token_Name, lit ''key''), (Token_Text, lit '' ''), (Token_Operator, lit ''=''),
          (Token_Text, lit '' ''), (Token_String, lit ([dquote] @ ''value'' @ [dquote])),
          (Token_Text, [10])] = Returns b \<longrightarrow>
       loop_body env [''toml'', ''key = '' @ [dquote] @ ''value'' @ [dquote]] st =
         Returns (Bytes b,
           st\<lparr>lang := Some (lit ''toml''),
              code := Some (lit (''key = '' @ [dquote] @ ''value'' @ [dquote])),
              rv := Some (Bytes b), lex_local := Some TOMLLexer\<rparr>))"
proof -
  let ?src = "lit (''key = '' @ [dquote] @ ''value'' @ [dquote])"
  let ?toks = "[(Token_Name, lit ''key''), (Token_Text, lit '' ''), (Token_Operator, lit ''=''),
           (Token_Text, lit '' ''), (Token_String, lit ([dquote] @ ''value'' @ [dquote])),
           (Token_Text, [10])]"
  have h: "highlight env ?src TOMLLexer = format env ?toks"
    unfolding highlight_def get_tokens_def
    by (simp only: TOMLLexer_key_value lexer.simps option.simps call.simps)
  have "loop_body env [''toml'', ''key = '' @ [dquote] @ ''value'' @ [dquote]] st =
         Returns (Bytes b,
           st\<lparr>lang := Some (lit ''toml''), code := Some ?src,
              rv := Some (Bytes b), lex_local := Some TOMLLexer\<rparr>)"
    if "format env ?toks = Returns b"
  proof -
    have "lexer_for env (lit ''toml'') = Returns TOMLLexer"
      by (simp add: lexer_for_def)
    moreover have "highlight env ?src TOMLLexer = Returns b"
      using h that by simp
    ultimately show ?thesis
      using loop_body_rendered [OF decode_toml decode_key_value] by simp
  qed
  then have l: "format env ?toks = Returns b \<longrightarrow>
       loop_body env [''toml'', ''key = '' @ [dquote] @ ''value'' @ [dquote]] st =
         Returns (Bytes b,
           st\<lparr>lang := Some (lit ''toml''), code := Some ?src,
              rv := Some (Bytes b), lex_local := Some TOMLLexer\<rparr>)"
    by blast
  have t: "TOMLLexer_get_tokens (decimal env) ?src = Some ?toks"
    by (rule TOMLLexer_key_value)
  show ?thesis
    using t h l by blast
qed

theorem toml_key_value_witness:
  "format sample
     [(Token_Name, lit ''key''), (Token_Text, lit '' ''), (Token_Operator, lit ''=''),
      (Token_Text, lit '' ''), (Token_String, lit ([dquote] @ ''value'' @ [dquote])),
      (Token_Text, [10])]
    = Returns (''<span class='' @ [dquote] @ ''n'' @ [dquote] @ ''>key</span> ''
        @ ''<span class='' @ [dquote] @ ''o'' @ [dquote] @ ''>=</span> ''
        @ ''<span class='' @ [dquote] @ ''s'' @ [dquote] @ ''>&quot;value&quot;</span>''
        @ [CHR 0x0A])
   \<and> reply (loop_body sample [''toml'', ''key = '' @ [dquote] @ ''value'' @ [dquote]] unbound) =
       Returns (Bytes (''<span class='' @ [dquote] @ ''n'' @ [dquote] @ ''>key</span> ''
        @ ''<span class='' @ [dquote] @ ''o'' @ [dquote] @ ''>=</span> ''
        @ ''<span class='' @ [dquote] @ ''s'' @ [dquote] @ ''>&quot;value&quot;</span>''
        @ [CHR 0x0A]))"
proof -
  have f: "format sample
     [(Token_Name, lit ''key''), (Token_Text, lit '' ''), (Token_Operator, lit ''=''),
      (Token_Text, lit '' ''), (Token_String, lit ([dquote] @ ''value'' @ [dquote])),
      (Token_Text, [10])]
    = Returns (''<span class='' @ [dquote] @ ''n'' @ [dquote] @ ''>key</span> ''
        @ ''<span class='' @ [dquote] @ ''o'' @ [dquote] @ ''>=</span> ''
        @ ''<span class='' @ [dquote] @ ''s'' @ [dquote] @ ''>&quot;value&quot;</span>''
        @ [CHR 0x0A])"
    using sample_format_key_value by simp
  have "loop_body sample [''toml'', ''key = '' @ [dquote] @ ''value'' @ [dquote]] unbound =
     Returns (Bytes (''<span class='' @ [dquote] @ ''n'' @ [dquote] @ ''>key</span> ''
        @ ''<span class='' @ [dquote] @ ''o'' @ [dquote] @ ''>=</span> ''
        @ ''<span class='' @ [dquote] @ ''s'' @ [dquote] @ ''>&quot;value&quot;</span>''
        @ [CHR 0x0A]),
       unbound\<lparr>lang := Some (lit ''toml''),
              code := Some (lit (''key = '' @ [dquote] @ ''value'' @ [dquote])),
              rv := Some (Bytes (''<span class='' @ [dquote] @ ''n'' @ [dquote] @ ''>key</span> ''
        @ ''<span class='' @ [dquote] @ ''o'' @ [dquote] @ ''>=</span> ''
        @ ''<span class='' @ [dquote] @ ''s'' @ [dquote] @ ''>&quot;value&quot;</span>''
        @ [CHR 0x0A])), lex_local := Some TOMLLexer\<rparr>)"
    using toml_key_value [where env = sample and st = unbound] f by blast
  with f show ?thesis
    by (simp add: reply_def)
qed

text \<open>
  Claim C10: the two branches that assign the reply give values of different types.
  When the body of the \<^verbatim>\<open>try\<close> statement completes, \<^verbatim>\<open>rv\<close> holds the \<^verbatim>\<open>bytes\<close> that
  the formatter, built with an encoding, has written; when it raises a \<^verbatim>\<open>ValueError\<close>
  the handler assigns a \<^verbatim>\<open>str\<close>, the error text, which is not encoded. So the value
  that reaches \<^verbatim>\<open>socket.send\<close> is a \<^verbatim>\<open>bytes\<close> on one path and a \<^verbatim>\<open>str\<close> on the other.
\<close>

theorem payload_types:
  "(seq (resolve env) (render env) (st\<lparr>rv := Some (Str [])\<rparr>) = Done st' \<longrightarrow>
      make_reply env st = Done st' \<and> (\<exists>b. rv st' = Some (Bytes b)))
   \<and> (seq (resolve env) (render env) (st\<lparr>rv := Some (Str [])\<rparr>) = Raised e st'
        \<and> isinstance e ValueError \<longrightarrow>
      make_reply env st = Done (st'\<lparr>rv := Some (Str (lit ''Pygments Error: '' @ exn_msg e))\<rparr>))"
proof -
  have "\<exists>b. rv st' = Some (Bytes b)"
    if "seq (resolve env) (render env) (st\<lparr>rv := Some (Str [])\<rparr>) = Done st'"
  proof -
    from that obtain s where "render env s = Done st'"
      by (auto simp: seq_def split: exec.splits)
    then show ?thesis
      using render_Done by fastforce
  qed
  then show ?thesis
    by (auto simp: make_reply_def seq_def try_except_def error_reply_def split: exec.splits)
qed

theorem payload_types_witness:
  "make_reply sample (unbound\<lparr>lang := Some (lit ''text''), code := Some (lit ''hello'')\<rparr>) =
     Done (unbound\<lparr>lang := Some (lit ''text''), code := Some (lit ''hello''),
             lex_local := Some (Library PlainText),
             rv := Some (Bytes (''hello'' @ [CHR 0x0A]))\<rparr>)
   \<and> isinstance (Exn ValueError (lit ''unsupported input'')) ValueError
   \<and> make_reply sample (unbound\<lparr>lang := Some (lit ''broken''), code := Some (lit ''hello'')\<rparr>) =
     Done (unbound\<lparr>lang := Some (lit ''broken''), code := Some (lit ''hello''),
             lex_local := Some (Library Broken),
             rv := Some (Str (lit ''Pygments Error: '' @ lit ''unsupported input''))\<rparr>)"
proof -
  have ok: "seq (resolve sample) (render sample)
       (unbound\<lparr>lang := Some (lit ''text''), code := Some (lit ''hello''), rv := Some (Str [])\<rparr>) =
     Done (unbound\<lparr>lang := Some (lit ''text''), code := Some (lit ''hello''),
             lex_local := Some (Library PlainText),
             rv := Some (Bytes (''hello'' @ [CHR 0x0A]))\<rparr>)"
    by (simp add: try_body lexer_for_text get_lexer_by_name_returns highlight_sample_hello)
  have bad: "seq (resolve sample) (render sample)
       (unbound\<lparr>lang := Some (lit ''broken''), code := Some (lit ''hello''), rv := Some (Str [])\<rparr>) =
     Raised (Exn ValueError (lit ''unsupported input''))
       (unbound\<lparr>lang := Some (lit ''broken''), code := Some (lit ''hello''), rv := Some (Str []),
                lex_local := Some (Library Broken)\<rparr>)"
    by (simp add: try_body lexer_for_registered highlight_sample_broken)
  have v: "isinstance (Exn ValueError (lit ''unsupported input'')) ValueError"
    by (simp add: isinstance_def)
  show ?thesis
    using payload_types [where env = sample
        and st = "unbound\<lparr>lang := Some (lit ''text''), code := Some (lit ''hello'')\<rparr>"
        and st' = "unbound\<lparr>lang := Some (lit ''text''), code := Some (lit ''hello''),
             lex_local := Some (Library PlainText),
             rv := Some (Bytes (''hello'' @ [CHR 0x0A]))\<rparr>"]
      payload_types [where env = sample
        and st = "unbound\<lparr>lang := Some (lit ''broken''), code := Some (lit ''hello'')\<rparr>"
        and e = "Exn ValueError (lit ''unsupported input'')"
        and st' = "unbound\<lparr>lang := Some (lit ''broken''), code := Some (lit ''hello''),
             rv := Some (Str []), lex_local := Some (Library Broken)\<rparr>"]
      ok bad v
    by simp
qed

end
